theory Spec2Isabelle
  imports Complex_Main "HOL-Library.Multiset"
begin

section \<open>Python text primitives used by the services\<close>

text \<open>
  Strings are lists of characters. Case folding is the ASCII part of Python's
  \<^verbatim>\<open>str.lower()\<close>: the letters A to Z are mapped to a to z and every other
  character is kept.
\<close>

definition lower_char :: "char \<Rightarrow> char" where
  "lower_char c =
     (case map_of (zip ''ABCDEFGHIJKLMNOPQRSTUVWXYZ'' ''abcdefghijklmnopqrstuvwxyz'') c of
        Some d \<Rightarrow> d
      | None \<Rightarrow> c)"

definition lower :: "string \<Rightarrow> string" where
  "lower s = map lower_char s"

text \<open>\<^verbatim>\<open>s.startswith(p)\<close>\<close>

fun startswith :: "string \<Rightarrow> string \<Rightarrow> bool" where
  "startswith s [] = True"
| "startswith [] (p # ps) = False"
| "startswith (c # cs) (p # ps) = (c = p \<and> startswith cs ps)"

text \<open>\<^verbatim>\<open>sub in s\<close> on strings: \<open>sub\<close> occurs in \<open>s\<close> as a contiguous block.\<close>

fun str_in :: "string \<Rightarrow> string \<Rightarrow> bool" where
  "str_in sub [] = (sub = [])"
| "str_in sub (c # cs) = (startswith (c # cs) sub \<or> str_in sub cs)"

text \<open>\<^verbatim>\<open>any(term in s for term in terms)\<close>\<close>

definition any_in :: "string list \<Rightarrow> string \<Rightarrow> bool" where
  "any_in terms s = list_ex (\<lambda>t. str_in t s) terms"

text \<open>\<^verbatim>\<open>sum(1 for word in words if word in s)\<close>\<close>

definition count_in :: "string list \<Rightarrow> string \<Rightarrow> nat" where
  "count_in words s = length (filter (\<lambda>w. str_in w s) words)"

text \<open>
  \<^verbatim>\<open>round(x, 2)\<close>: rounding to two decimals, a tie going to the even neighbour.
  Scores are Python floats; they are modelled as exact reals.
\<close>

definition py_round2 :: "real \<Rightarrow> real" where
  "py_round2 x =
     (let y = x * 100;
          f = \<lfloor>y\<rfloor>;
          d = y - of_int f
      in (if d < 1 / 2 then of_int f
          else if 1 / 2 < d then of_int (f + 1)
          else if even f then of_int f
          else of_int (f + 1)) / 100)"

text \<open>
  The characters for which \<^verbatim>\<open>str.isspace()\<close> holds, which are also the ones the
  regular expression \<^verbatim>\<open>\s\<close> matches: tab, line feed, vertical tab, form feed,
  carriage return, the four separators 0x1C to 0x1F, and the space.
\<close>

definition whitespace_chars :: "char list" where
  "whitespace_chars =
     [CHR 0x09, CHR 0x0A, CHR 0x0B, CHR 0x0C, CHR 0x0D,
      CHR 0x1C, CHR 0x1D, CHR 0x1E, CHR 0x1F, CHR 0x20]"

definition is_space :: "char \<Rightarrow> bool" where
  "is_space c = (c \<in> set whitespace_chars)"

text \<open>The characters the regular expression \<^verbatim>\<open>\w\<close> matches in an ASCII text.\<close>

definition word_chars :: "char list" where
  "word_chars = ''abcdefghijklmnopqrstuvwxyzABCDEFGHIJKLMNOPQRSTUVWXYZ0123456789_''"

definition is_word_char :: "char \<Rightarrow> bool" where
  "is_word_char c = (c \<in> set word_chars)"

text \<open>\<^verbatim>\<open>s.strip()\<close>\<close>

definition strip :: "string \<Rightarrow> string" where
  "strip s = rev (dropWhile is_space (rev (dropWhile is_space s)))"

text \<open>
  \<^verbatim>\<open>s.split()\<close>: the maximal runs of non-whitespace characters, in order. The
  first argument is the word being read, reversed.
\<close>

fun split_acc :: "string \<Rightarrow> string \<Rightarrow> string list" where
  "split_acc cur [] = (if cur = [] then [] else [rev cur])"
| "split_acc cur (c # cs) =
     (if is_space c then (if cur = [] then split_acc [] cs else rev cur # split_acc [] cs)
      else split_acc (c # cur) cs)"

definition split :: "string \<Rightarrow> string list" where
  "split s = split_acc [] s"

text \<open>\<^verbatim>\<open>' '.join(words)\<close>\<close>

fun join_space :: "string list \<Rightarrow> string" where
  "join_space [] = []"
| "join_space [w] = w"
| "join_space (w # v # ws) = w @ '' '' @ join_space (v # ws)"

text \<open>
  \<^verbatim>\<open>s.count(sub)\<close>: the number of non-overlapping occurrences of \<open>sub\<close> in
  \<open>s\<close>, scanning from the left; for the empty \<open>sub\<close> Python counts the gaps.
\<close>

fun count_from :: "string \<Rightarrow> string \<Rightarrow> nat" where
  "count_from sub [] = 0"
| "count_from sub (c # cs) =
     (if startswith (c # cs) sub then Suc (count_from sub (drop (length sub - 1) cs))
      else count_from sub cs)"

definition str_count :: "string \<Rightarrow> string \<Rightarrow> nat" where
  "str_count s sub = (if sub = [] then Suc (length s) else count_from sub s)"

text \<open>
  The regular expressions of the services have three shapes: a literal text, two literals
  joined by \<^verbatim>\<open>.*\<close> (any characters but a line feed), and two literals joined by
  \<^verbatim>\<open>\s+\<close> (one or more whitespace characters). \<open>pattern_source\<close> is the text
  of the pattern as the source writes it.
\<close>

datatype pattern = Lit string | DotStar string string | Spaces string string

fun pattern_source :: "pattern \<Rightarrow> string" where
  "pattern_source (Lit a) = a"
| "pattern_source (DotStar a b) = a @ ''.*'' @ b"
| "pattern_source (Spaces a b) = a @ [CHR 0x5C] @ ''s+'' @ b"

definition line_rest :: "string \<Rightarrow> string" where
  "line_rest s = takeWhile (\<lambda>c. c \<noteq> CHR 0x0A) s"

fun dotstar_search :: "string \<Rightarrow> string \<Rightarrow> string \<Rightarrow> bool" where
  "dotstar_search a b [] = (a = [] \<and> b = [])"
| "dotstar_search a b (c # cs) =
     ((startswith (c # cs) a \<and> str_in b (line_rest (drop (length a) (c # cs))))
      \<or> dotstar_search a b cs)"

definition spaces_then :: "string \<Rightarrow> string \<Rightarrow> bool" where
  "spaces_then b r =
     (case r of [] \<Rightarrow> False
      | c # cs \<Rightarrow> is_space c \<and> startswith (dropWhile is_space cs) b)"

fun spaces_search :: "string \<Rightarrow> string \<Rightarrow> string \<Rightarrow> bool" where
  "spaces_search a b [] = False"
| "spaces_search a b (c # cs) =
     ((startswith (c # cs) a \<and> spaces_then b (drop (length a) (c # cs)))
      \<or> spaces_search a b cs)"

text \<open>\<^verbatim>\<open>re.search(pattern, s)\<close> is not \<^verbatim>\<open>None\<close>.\<close>

fun re_search :: "pattern \<Rightarrow> string \<Rightarrow> bool" where
  "re_search (Lit a) s = str_in a s"
| "re_search (DotStar a b) s = dotstar_search a b s"
| "re_search (Spaces a b) s = spaces_search a b s"

section \<open>The sequence-alignment ratio of Python's \<^verbatim>\<open>difflib\<close>\<close>

text \<open>
  \<^verbatim>\<open>calculate_similarity\<close> calls \<^verbatim>\<open>SequenceMatcher(None, a, b).ratio()\<close> of the
  Python standard library. The services below take the ratio as a parameter \<open>ratio\<close>;
  \<open>sequence_matcher_ratio\<close> is the library's algorithm, used to run them on
  concrete texts.
\<close>

text \<open>
  With \<^verbatim>\<open>autojunk\<close> on (the default), a second sequence of 200 or more elements
  has its popular elements, those occurring more than \<open>n div 100 + 1\<close> times, left out
  of the index \<^verbatim>\<open>b2j\<close>.
\<close>

definition popular_chars :: "string \<Rightarrow> char list" where
  "popular_chars b =
     (let n = length b
      in if 200 \<le> n then filter (\<lambda>c. n div 100 + 1 < count_list b c) (remdups b) else [])"

text \<open>
  \<^verbatim>\<open>find_longest_match\<close> keeps, for the current element \<open>a[i]\<close>, the length of
  the longest indexed match ending at each \<open>j\<close> (\<^verbatim>\<open>newj2len\<close>, here a list with
  0 for an absent key), and records a block when it is strictly longer than the best so
  far, rows and columns scanned in ascending order.
\<close>

definition next_row :: "char list \<Rightarrow> nat \<Rightarrow> nat \<Rightarrow> string \<Rightarrow> char \<Rightarrow> nat list \<Rightarrow> nat list" where
  "next_row popular blo bhi b ai row =
     map (\<lambda>(j, bj, prev).
            if blo \<le> j \<and> j < bhi \<and> bj = ai \<and> ai \<notin> set popular then Suc prev else 0)
         (zip [0..<length b] (zip b (0 # row)))"

definition best_in_row :: "nat \<Rightarrow> nat list \<Rightarrow> nat \<times> nat \<times> nat \<Rightarrow> nat \<times> nat \<times> nat" where
  "best_in_row i row best =
     fold (\<lambda>(j, k) (besti, bestj, bestsize).
             if bestsize < k then (Suc i - k, Suc j - k, k) else (besti, bestj, bestsize))
          (zip [0..<length row] row) best"

fun scan_rows :: "char list \<Rightarrow> nat \<Rightarrow> nat \<Rightarrow> string \<Rightarrow> (nat \<times> char) list \<Rightarrow> nat list
    \<Rightarrow> nat \<times> nat \<times> nat \<Rightarrow> nat \<times> nat \<times> nat" where
  "scan_rows popular blo bhi b [] row best = best"
| "scan_rows popular blo bhi b ((i, ai) # rest) row best =
     (let row' = next_row popular blo bhi b ai row
      in scan_rows popular blo bhi b rest row' (best_in_row i row' best))"

text \<open>
  The best block is then extended to the left and to the right over equal elements. No
  element is junk (\<^verbatim>\<open>isjunk\<close> is \<^verbatim>\<open>None\<close>), so the two junk loops do
  nothing.
\<close>

function extend_left :: "string \<Rightarrow> string \<Rightarrow> nat \<Rightarrow> nat \<Rightarrow> nat \<times> nat \<times> nat \<Rightarrow> nat \<times> nat \<times> nat" where
  "extend_left a b alo blo (besti, bestj, bestsize) =
     (if alo < besti \<and> blo < bestj \<and> a ! (besti - 1) = b ! (bestj - 1)
      then extend_left a b alo blo (besti - 1, bestj - 1, Suc bestsize)
      else (besti, bestj, bestsize))"
  by pat_completeness auto
termination
  by (relation "measure (\<lambda>(a, b, alo, blo, besti, bestj, bestsize). besti)") auto

function extend_right :: "string \<Rightarrow> string \<Rightarrow> nat \<Rightarrow> nat \<Rightarrow> nat \<times> nat \<times> nat \<Rightarrow> nat \<times> nat \<times> nat" where
  "extend_right a b ahi bhi (besti, bestj, bestsize) =
     (if besti + bestsize < ahi \<and> bestj + bestsize < bhi
         \<and> a ! (besti + bestsize) = b ! (bestj + bestsize)
      then extend_right a b ahi bhi (besti, bestj, Suc bestsize)
      else (besti, bestj, bestsize))"
  by pat_completeness auto
termination
  by (relation "measure (\<lambda>(a, b, ahi, bhi, besti, bestj, bestsize). ahi - (besti + bestsize))") auto

definition find_longest_match :: "char list \<Rightarrow> string \<Rightarrow> string \<Rightarrow> nat \<Rightarrow> nat \<Rightarrow> nat \<Rightarrow> nat \<Rightarrow> nat \<times> nat \<times> nat" where
  "find_longest_match popular a b alo ahi blo bhi =
     extend_right a b ahi bhi
       (extend_left a b alo blo
          (scan_rows popular blo bhi b (drop alo (zip [0..<ahi] a)) (replicate (length b) 0)
             (alo, blo, 0)))"

text \<open>
  \<^verbatim>\<open>get_matching_blocks\<close> takes the longest block of the window and recurses on the
  windows to its left and to its right; \<open>matching_size\<close> is the total size of the
  blocks. The block lies inside the window, so \<open>i < ahi\<close> and \<open>alo < i + k\<close> hold
  at the recursive calls; they are written out to make the recursion well-founded.
\<close>

function matching_size :: "char list \<Rightarrow> string \<Rightarrow> string \<Rightarrow> nat \<Rightarrow> nat \<Rightarrow> nat \<Rightarrow> nat \<Rightarrow> nat" where
  "matching_size popular a b alo ahi blo bhi =
     (case find_longest_match popular a b alo ahi blo bhi of
        (i, j, k) \<Rightarrow>
          if k = 0 then 0
          else k
             + (if alo < i \<and> blo < j \<and> i < ahi then matching_size popular a b alo i blo j else 0)
             + (if i + k < ahi \<and> j + k < bhi \<and> alo < i + k
                then matching_size popular a b (i + k) ahi (j + k) bhi else 0))"
  by pat_completeness auto
termination
  by (relation "measure (\<lambda>(popular, a, b, alo, ahi, blo, bhi). ahi - alo)") auto

text \<open>\<^verbatim>\<open>SequenceMatcher(None, a, b).ratio()\<close>: \<open>2 M / T\<close>, and 1 for two empty texts.\<close>

definition sequence_matcher_ratio :: "string \<Rightarrow> string \<Rightarrow> real" where
  "sequence_matcher_ratio a b =
     (let total = length a + length b
      in if total = 0 then 1
         else 2 * real (matching_size (popular_chars b) a b 0 (length a) 0 (length b)) / real total)"

section \<open>Lexical matcher and grounder: \<^verbatim>\<open>app/services/semantic_search.py\<close>\<close>

text \<open>
  An FAQ entry as the corpus provider returns it: the question and the answer are texts,
  the category tag may be absent, and \<open>similarity_score\<close> is the key the retrieval
  step adds to a returned entry (absent before).
\<close>

record faq =
  faq_id :: string
  question :: string
  answer :: string
  category :: "string option"
  similarity_score :: "real option"

definition synonym_map :: "(string \<times> string list) list" where
  "synonym_map =
     [(''add'', [''create'', ''register'', ''new'', ''insert'']),
      (''vehicle'', [''car'', ''truck'', ''fleet'', ''auto'', ''automobile'']),
      (''delete'', [''remove'', ''erase'', ''drop'']),
      (''edit'', [''modify'', ''update'', ''change'']),
      (''maintenance'', [''service'', ''repair'', ''upkeep'', ''servicing'']),
      (''record'', [''history'', ''log'', ''entry'', ''document'']),
      (''cost'', [''price'', ''expense'', ''fee'', ''charge'', ''amount'']),
      (''reminder'', [''alert'', ''notification'', ''notification'', ''reminder'']),
      (''due'', [''upcoming'', ''scheduled'', ''coming'']),
      (''report'', [''analysis'', ''analytics'', ''data'', ''summary'', ''statistics'']),
      (''export'', [''download'', ''save'', ''extract'', ''generate'']),
      (''account'', [''profile'', ''user account'', ''login account'']),
      (''login'', [''sign in'', ''authenticate'', ''access'']),
      (''password'', [''credentials'', ''secret'', ''pass'']),
      (''signup'', [''register'', ''create account'', ''join'']),
      (''team'', [''members'', ''users'', ''people'', ''staff'']),
      (''invite'', [''add member'', ''include'', ''join'']),
      (''role'', [''permission'', ''access level'', ''responsibility'']),
      (''how'', [''what is the way'', ''procedure'', ''steps'', ''guide'']),
      (''track'', [''monitor'', ''follow'', ''watch'', ''trace'']),
      (''payment'', [''billing'', ''subscription'', ''pricing'', ''charges''])]"

definition intent_patterns :: "(string \<times> pattern list) list" where
  "intent_patterns =
     [(''add_vehicle'', [DotStar ''add'' ''vehicle'', DotStar ''new'' ''vehicle'',
                         DotStar ''register'' ''vehicle'', DotStar ''create'' ''car'']),
      (''maintenance'', [Lit ''maintenance'', Lit ''service'', Lit ''repair'', Lit ''upkeep'']),
      (''reminder'', [Lit ''reminder'', Lit ''alert'', Lit ''notification'', DotStar ''due'' ''date'']),
      (''track_cost'', [DotStar ''track'' ''cost'', DotStar ''maintenance'' ''cost'',
                        Lit ''spending'', Lit ''expense'']),
      (''account_setup'', [DotStar ''create'' ''account'', DotStar ''sign'' ''up'',
                           Lit ''register'', Lit ''account'']),
      (''login'', [Lit ''login'', DotStar ''sign'' ''in'', Lit ''access'', Lit ''password'']),
      (''export'', [Lit ''export'', Lit ''download'', Lit ''report'', Lit ''generate'']),
      (''gps'', [Lit ''gps'', Lit ''location'', DotStar ''track'' ''vehicle'', DotStar ''real'' ''time'']),
      (''team'', [Lit ''team'', Lit ''invite'', Lit ''member'', Lit ''role'', Lit ''permission'']),
      (''compliance'', [Lit ''compliance'', Lit ''license'', Lit ''driver''])]"

text \<open>
  \<^verbatim>\<open>normalize_text\<close>: lower case, strip, then delete every character that is neither
  a word character nor whitespace.
\<close>

definition normalize_text :: "string \<Rightarrow> string" where
  "normalize_text text = filter (\<lambda>c. is_word_char c \<or> is_space c) (strip (lower text))"

definition expand_with_synonyms :: "string \<Rightarrow> string" where
  "expand_with_synonyms text =
     (let normalized = normalize_text text;
          words = split normalized;
          expanded = words @ concat (map (\<lambda>word. case map_of synonym_map word of
                                                    Some synonyms \<Rightarrow> synonyms
                                                  | None \<Rightarrow> []) words)
      in join_space expanded)"

text \<open>
  \<^verbatim>\<open>detect_intent\<close>: the two nested loops over the intents and their patterns, in
  the order of the dictionary, carrying \<open>(best_intent, best_score)\<close>.
\<close>

definition pattern_score :: "pattern \<Rightarrow> string \<Rightarrow> real" where
  "pattern_score p query_lower =
     (if 1 < str_count query_lower (take 5 (takeWhile (\<lambda>c. c \<noteq> CHR ''['') (pattern_source p)))
      then 1 else 0.9)"

definition intent_step :: "string \<Rightarrow> string \<Rightarrow> pattern \<Rightarrow> string \<times> real \<Rightarrow> string \<times> real" where
  "intent_step query_lower intent p best =
     (if re_search p query_lower
      then (let score = pattern_score p query_lower
            in if snd best < score then (intent, score) else best)
      else best)"

definition detect_intent :: "string \<Rightarrow> string \<times> real" where
  "detect_intent query =
     (let query_lower = lower query
      in fold (\<lambda>(intent, patterns) best. fold (intent_step query_lower intent) patterns best)
           intent_patterns (''general'', 0))"

definition calculate_similarity :: "(string \<Rightarrow> string \<Rightarrow> real) \<Rightarrow> string \<Rightarrow> string \<Rightarrow> real" where
  "calculate_similarity ratio text1 text2 =
     (let norm1 = normalize_text text1;
          norm2 = normalize_text text2;
          direct_similarity = ratio norm1 norm2;
          exp1 = expand_with_synonyms norm1;
          exp2 = expand_with_synonyms norm2;
          expanded_similarity = ratio exp1 exp2
      in direct_similarity * 0.4 + expanded_similarity * 0.6)"

text \<open>\<^verbatim>\<open>xs[:k]\<close> for an integer \<open>k\<close>: a negative \<open>k\<close> drops the last \<open>-k\<close> elements.\<close>

definition py_prefix :: "int \<Rightarrow> 'a list \<Rightarrow> 'a list" where
  "py_prefix k xs = (if 0 \<le> k then take (nat k) xs else take (length xs - nat (- k)) xs)"

text \<open>
  The score of one entry in the loop of \<^verbatim>\<open>search_faqs\<close>: the larger of the question
  similarity and half the answer similarity, and the category boost.
\<close>

definition base_similarity :: "(string \<Rightarrow> string \<Rightarrow> real) \<Rightarrow> string \<Rightarrow> faq \<Rightarrow> real" where
  "base_similarity ratio query f =
     (let q_similarity = calculate_similarity ratio query (question f);
          a_similarity = calculate_similarity ratio query (answer f) * 0.5
      in max q_similarity a_similarity)"

definition category_matches :: "string \<Rightarrow> string \<Rightarrow> bool" where
  "category_matches cat intent = (str_in (lower cat) (lower intent) \<or> str_in intent (lower cat))"

definition faq_similarity :: "(string \<Rightarrow> string \<Rightarrow> real) \<Rightarrow> string \<Rightarrow> string \<Rightarrow> faq \<Rightarrow> real" where
  "faq_similarity ratio query intent f =
     (let similarity = base_similarity ratio query f
      in case category f of
           Some cat \<Rightarrow> if category_matches cat intent then min (similarity * 1.2) 1 else similarity
         | None \<Rightarrow> similarity)"

text \<open>
  \<^verbatim>\<open>search_faqs\<close>. \<open>search_loop\<close> is the \<^verbatim>\<open>for faq in faqs\<close> loop that
  collects \<^verbatim>\<open>results\<close>. \<^verbatim>\<open>results.sort(key=lambda x: x[1], reverse=True)\<close> is
  a stable sort by descending score: \<open>sort_key\<close> on the negated score.
\<close>

fun search_loop ::
    "(string \<Rightarrow> string \<Rightarrow> real) \<Rightarrow> string \<Rightarrow> string \<Rightarrow> real \<Rightarrow> faq list \<Rightarrow> (faq \<times> real) list" where
  "search_loop ratio query intent threshold [] = []"
| "search_loop ratio query intent threshold (f # faqs) =
     (let similarity = faq_similarity ratio query intent f
      in (if threshold \<le> similarity then [(f, similarity)] else [])
         @ search_loop ratio query intent threshold faqs)"

definition search_faqs ::
    "(string \<Rightarrow> string \<Rightarrow> real) \<Rightarrow> string \<Rightarrow> faq list \<Rightarrow> int \<Rightarrow> real \<Rightarrow> (faq \<times> real) list" where
  "search_faqs ratio query faqs top_k threshold =
     (if strip query = [] then []
      else let (intent, intent_confidence) = detect_intent query;
               results = search_loop ratio query intent threshold faqs
           in py_prefix top_k (sort_key (\<lambda>x. - snd x) results))"

record grounding_result =
  grounded_answer :: string
  grounding_faqs :: "faq list"
  is_grounded :: bool
  confidence :: real

definition grounding_note :: string where
  "grounding_note =
     [CHR 0x0A, CHR 0x0A] @ ''*Note: This answer is based on available documentation. ''
     @ ''For specific details, please contact our support team.*''"

definition not_found_answer :: "string \<Rightarrow> string" where
  "not_found_answer query =
     ''I couldn't find specific information about '' @ [CHR 0x27] @ query @ [CHR 0x27]
     @ '' in our FAQ database. '' @ [CHR 0x0A, CHR 0x0A]
     @ ''Please contact our support team at support@fleety.com for detailed assistance. ''
     @ ''We're here to help!''"

text \<open>\<^verbatim>\<open>faq.get('similarity_score', 0)\<close>\<close>

definition score_of :: "faq \<Rightarrow> real" where
  "score_of f = (case similarity_score f of Some s \<Rightarrow> s | None \<Rightarrow> 0)"

text \<open>\<^verbatim>\<open>max(xs)\<close> of a non-empty list.\<close>

fun max_list :: "real list \<Rightarrow> real" where
  "max_list [] = 0"
| "max_list (x # xs) = fold max xs x"

definition ground_answer :: "string \<Rightarrow> faq list \<Rightarrow> string \<Rightarrow> grounding_result" where
  "ground_answer query faq_results ans =
     (let grounded = (0 < length faq_results)
      in if grounded then
           (let best_match_score = max_list (map score_of faq_results);
                conf = best_match_score;
                note = (if conf < 0.6 then grounding_note else [])
            in \<lparr> grounded_answer = (if note \<noteq> [] then ans @ note else ans),
                 grounding_faqs = faq_results,
                 is_grounded = grounded,
                 confidence = conf \<rparr>)
         else \<lparr> grounded_answer = not_found_answer query,
                grounding_faqs = faq_results,
                is_grounded = grounded,
                confidence = 0 \<rparr>)"

definition outdated_markers :: "string list" where
  "outdated_markers =
     [''coming soon'', ''will be available'', ''future release'', ''planned for'',
      ''deprecated'', ''no longer'', ''obsolete'']"

definition validate_answer_freshness :: "faq \<Rightarrow> bool" where
  "validate_answer_freshness f = (\<not> any_in outdated_markers (lower (answer f)))"

text \<open>
  The score as Section 4.2 of the specification words it, to be compared with the score
  \<^verbatim>\<open>search_faqs\<close> computes: the similarity \<open>0.4 * direct + 0.6 * expanded\<close>, the
  final score \<open>max(question similarity, 0.5 * answer similarity)\<close>, and the category
  boost on top of it, decided on the intent that \<^verbatim>\<open>detect_intent\<close> returns.
\<close>

definition spec_similarity :: "(string \<Rightarrow> string \<Rightarrow> real) \<Rightarrow> string \<Rightarrow> string \<Rightarrow> real" where
  "spec_similarity ratio query text =
     0.4 * ratio (normalize_text query) (normalize_text text)
     + 0.6 * ratio (expand_with_synonyms (normalize_text query))
                   (expand_with_synonyms (normalize_text text))"

definition spec_final :: "(string \<Rightarrow> string \<Rightarrow> real) \<Rightarrow> string \<Rightarrow> faq \<Rightarrow> real" where
  "spec_final ratio query f =
     max (spec_similarity ratio query (question f)) (0.5 * spec_similarity ratio query (answer f))"

definition boost_applies :: "string \<Rightarrow> faq \<Rightarrow> bool" where
  "boost_applies label f =
     (case category f of
        Some cat \<Rightarrow> str_in (lower cat) (lower label) \<or> str_in label (lower cat)
      | None \<Rightarrow> False)"

definition spec_boosted :: "(string \<Rightarrow> string \<Rightarrow> real) \<Rightarrow> string \<Rightarrow> faq \<Rightarrow> real" where
  "spec_boosted ratio query f =
     (if boost_applies (fst (detect_intent query)) f
      then min (1.2 * spec_final ratio query f) 1
      else spec_final ratio query f)"

section \<open>Analytics tagger: \<^verbatim>\<open>app/services/analytics.py\<close>\<close>

record sentiment_data =
  sentiment :: string
  sentiment_score :: real
  positive_indicators :: nat
  negative_indicators :: nat
  frustrated_indicators :: nat

definition positive_words :: "string list" where
  "positive_words =
     [''great'', ''excellent'', ''good'', ''perfect'', ''amazing'', ''love'', ''helpful'', ''thanks'']"

definition negative_words :: "string list" where
  "negative_words =
     [''bad'', ''terrible'', ''poor'', ''hate'', ''broken'', ''error'', ''problem'', ''issue'']"

definition frustrated_words :: "string list" where
  "frustrated_words = [''frustrat'', ''annoyed'', ''angry'', ''upset'', ''confused'']"

text \<open>
  The label and the unrounded score chosen by the \<^verbatim>\<open>if/elif\<close> chain of
  \<^verbatim>\<open>ChatbotAnalytics.detect_sentiment\<close> from the three indicator counts.
\<close>

definition sentiment_of_counts :: "nat \<Rightarrow> nat \<Rightarrow> nat \<Rightarrow> string \<times> real" where
  "sentiment_of_counts positive_count negative_count frustrated_count =
     (let total = positive_count + negative_count + frustrated_count
      in if total = 0 then (''neutral'', 0)
         else if 0 < frustrated_count then (''frustrated'', - 0.8)
         else if positive_count < negative_count then
           (''negative'',
            min (- 1) (- (real negative_count / real (max 1 (positive_count + negative_count)))))
         else if 0 < positive_count then
           (''positive'',
            min 1 (real positive_count / real (positive_count + negative_count + 1)))
         else (''neutral'', 0))"

definition detect_sentiment :: "string \<Rightarrow> sentiment_data" where
  "detect_sentiment text =
     (let text_lower = lower text;
          positive_count = count_in positive_words text_lower;
          negative_count = count_in negative_words text_lower;
          frustrated_count = count_in frustrated_words text_lower;
          (label, score) = sentiment_of_counts positive_count negative_count frustrated_count
      in \<lparr> sentiment = label,
           sentiment_score = py_round2 score,
           positive_indicators = positive_count,
           negative_indicators = negative_count,
           frustrated_indicators = frustrated_count \<rparr>)"

text \<open>
  \<^verbatim>\<open>build_metadata\<close>. The record keeps the fields that depend on the retrieval
  outcome and the sentiment of the query; the persona, the misunderstanding risk, the query
  metadata and the timestamp are further functions of the same arguments and of the clock
  and are left out.
\<close>

record metadata =
  md_faq_matched :: bool
  md_similarity_score :: real
  md_sentiment :: sentiment_data
  md_fallback_ai_used :: bool
  md_faq_source :: "(string \<times> string option \<times> string) option"

definition build_metadata ::
    "string \<Rightarrow> string \<Rightarrow> bool \<Rightarrow> real \<Rightarrow> bool \<Rightarrow> faq option \<Rightarrow> metadata" where
  "build_metadata query ans faq_matched sim_score used_gemini matched_faq =
     \<lparr> md_faq_matched = faq_matched,
       md_similarity_score = py_round2 sim_score,
       md_sentiment = detect_sentiment query,
       md_fallback_ai_used = used_gemini,
       md_faq_source = (case matched_faq of
                          None \<Rightarrow> None
                        | Some f \<Rightarrow> Some (faq_id f, category f, question f)) \<rparr>"

section \<open>Generation orchestrator: \<^verbatim>\<open>app/services/rag_service.py\<close>\<close>

definition classify_query_intent :: "string \<Rightarrow> string" where
  "classify_query_intent query =
     (let query_lower = lower query
      in if any_in [''register'', ''sign up'', ''create account'', ''new account'', ''get started'']
              query_lower then ''registration''
         else if any_in [''password'', ''login'', ''forgot'', ''reset password'', ''locked out'',
                         ''can't login''] query_lower then ''password_help''
         else if any_in [''vehicle'', ''add vehicle'', ''car'', ''truck'', ''fleet'',
                         ''register vehicle''] query_lower then ''vehicle_management''
         else if any_in [''maintenance'', ''service'', ''repair'', ''oil change'', ''reminder'']
                   query_lower then ''maintenance''
         else if any_in [''fuel'', ''efficiency'', ''cost'', ''consumption'', ''analytics'']
                   query_lower then ''fuel_tracking''
         else ''general'')"

definition should_override_similar_matches :: "string \<Rightarrow> faq list \<Rightarrow> string \<Rightarrow> bool" where
  "should_override_similar_matches query matches query_intent =
     (if matches = [] \<or> length matches < 2 then False
      else let top_match = lower (question (hd matches))
           in if query_intent = ''registration''
                 \<and> any_in [''password'', ''forgot'', ''reset''] top_match then True
              else if query_intent = ''password_help''
                 \<and> any_in [''register'', ''sign up'', ''create account''] top_match then True
              else if query_intent = ''vehicle_management''
                 \<and> any_in [''maintenance'', ''service'', ''repair''] top_match then True
              else False)"

text \<open>The lines of a text, joined by line feeds.\<close>

fun join_lines :: "string list \<Rightarrow> string" where
  "join_lines [] = []"
| "join_lines [l] = l"
| "join_lines (l # m # ls) = l @ [CHR 0x0A] @ join_lines (m # ls)"

definition registration_template :: string where
  "registration_template = join_lines
     [''To register for Fleety Fleet Management:'',
      [],
      ''1. Visit our website and click 'Start Free Trial' or 'Sign Up'' @ [CHR 0x27],
      ''2. Enter your company information (company name, email)'',
      ''3. Create a secure password'',
      ''4. Verify your email address by clicking the link sent to your inbox'',
      ''5. Set up your fleet profile and add your first vehicle'',
      [],
      ''Once registered, you can immediately start:'',
      ''- Adding and managing vehicles'',
      ''- Setting up maintenance schedules'',
      ''- Tracking fuel efficiency'',
      ''- Generating fleet reports'',
      [],
      ''For login issues, use the 'Forgot Password' option on the login page.'']"

definition password_template :: string where
  "password_template = join_lines
     [''To reset your password:'',
      [],
      ''1. Go to the Fleety login page'',
      ''2. Click 'Forgot Password'' @ [CHR 0x27],
      ''3. Enter the email associated with your account'',
      ''4. Check your email for a reset link (check spam folder if needed)'',
      ''5. Click the link and follow the instructions to create a new password'',
      ''6. Use your new password to log in'',
      [],
      ''If you don't receive the email within 5 minutes, please contact support@fleety.com'']"

definition get_direct_answer_template :: "string \<Rightarrow> string \<Rightarrow> string option" where
  "get_direct_answer_template query_intent query =
     (if query_intent = ''registration'' then Some registration_template
      else if query_intent = ''password_help'' then Some password_template
      else None)"

text \<open>
  \<^verbatim>\<open>_keyword_search_faqs\<close>: the search at threshold 0.3, then the freshness filter
  (\<open>freshness_loop\<close> is its \<^verbatim>\<open>for\<close> loop); a kept entry gets its score under
  \<open>similarity_score\<close>. \<open>all_faqs\<close> is what the corpus provider returned.
\<close>

fun freshness_loop :: "(faq \<times> real) list \<Rightarrow> faq list" where
  "freshness_loop [] = []"
| "freshness_loop ((f, score) # semantic_results) =
     (if validate_answer_freshness f
      then f\<lparr>similarity_score := Some score\<rparr> # freshness_loop semantic_results
      else freshness_loop semantic_results)"

definition keyword_search_faqs ::
    "(string \<Rightarrow> string \<Rightarrow> real) \<Rightarrow> faq list \<Rightarrow> string \<Rightarrow> int \<Rightarrow> faq list" where
  "keyword_search_faqs ratio all_faqs query top_k =
     (if all_faqs = [] then []
      else let semantic_results = search_faqs ratio query all_faqs top_k 0.3
           in freshness_loop semantic_results)"

text \<open>
  The external generator. \<open>api_key_set\<close> says that the API key is configured,
  \<open>model_ready\<close> that the model object was created, and \<open>generate_content\<close> is the
  text the model returns for a query, its context entries and the fine intent, or
  \<open>None\<close> when the call raises.
\<close>

record generator =
  api_key_set :: bool
  model_ready :: bool
  generate_content :: "string \<Rightarrow> faq list \<Rightarrow> string \<Rightarrow> string option"

definition generate_llm_answer :: "generator \<Rightarrow> string \<Rightarrow> faq list \<Rightarrow> string \<Rightarrow> string" where
  "generate_llm_answer gen query relevant_faqs intent =
     (if \<not> api_key_set gen \<or> \<not> model_ready gen then
        (case relevant_faqs of
           best_match # _ \<Rightarrow> answer best_match
         | [] \<Rightarrow> ''I couldn't find relevant FAQs. Please contact support.'')
      else (case generate_content gen query relevant_faqs intent of
              Some text \<Rightarrow> strip text
            | None \<Rightarrow>
                (case relevant_faqs of
                   best_match # _ \<Rightarrow> answer best_match
                 | [] \<Rightarrow> ''I couldn't generate an answer. Please contact support.'')))"

definition registration_keywords :: "string list" where
  "registration_keywords = [''register'', ''sign up'', ''create account'', ''account creation'']"

definition password_keywords :: "string list" where
  "password_keywords = [''password'', ''forgot'', ''reset'', ''forgot password'']"

definition vehicle_keywords :: "string list" where
  "vehicle_keywords = [''vehicle'', ''add vehicle'', ''car'', ''truck'', ''fleet'']"

definition validate_context_appropriateness :: "string \<Rightarrow> faq list \<Rightarrow> real \<Rightarrow> bool" where
  "validate_context_appropriateness query relevant_faqs sim_score =
     (case relevant_faqs of
        [] \<Rightarrow> False
      | top_faq # _ \<Rightarrow>
          (let query_lower = lower query;
               faq_question = lower (question top_faq);
               is_registration_query = any_in registration_keywords query_lower;
               is_password_query = any_in password_keywords query_lower;
               is_vehicle_query = any_in vehicle_keywords query_lower;
               is_password_answer = any_in password_keywords faq_question;
               is_registration_answer = any_in registration_keywords faq_question;
               is_vehicle_answer = any_in vehicle_keywords faq_question
           in if is_registration_query \<and> is_password_answer then False
              else if is_password_query \<and> is_registration_answer then False
              else if is_vehicle_query \<and> \<not> is_vehicle_answer \<and> sim_score < 0.5 then False
              else True))"

record clean_faq =
  cf_question :: string
  cf_answer :: string
  cf_category :: string
  cf_id :: string

record response =
  resp_answer :: string
  resp_relevant_faqs :: "clean_faq list"
  resp_grounding_confidence :: real
  resp_is_grounded :: bool
  resp_analytics :: metadata

definition clarification_answer :: "string \<Rightarrow> string" where
  "clarification_answer query =
     ''I want to make sure I understand your question correctly. You asked about ''
     @ [CHR 0x27] @ query @ [CHR 0x27] @ ''. ''
     @ ''Could you provide more details so I can give you accurate information? ''
     @ ''For example, are you trying to [register/add a vehicle/track maintenance/etc.]?''"

definition no_match_answer :: "string \<Rightarrow> string" where
  "no_match_answer query =
     ''I couldn't find information about '' @ [CHR 0x27] @ query @ [CHR 0x27]
     @ '' in our FAQ database. ''
     @ ''Please contact our support team at support@fleety.com for assistance.''"

definition clean_faqs :: "faq list \<Rightarrow> clean_faq list" where
  "clean_faqs fs =
     map (\<lambda>f. \<lparr> cf_question = question f,
                cf_answer = answer f,
                cf_category = (case category f of Some c \<Rightarrow> c | None \<Rightarrow> ''General''),
                cf_id = faq_id f \<rparr>) fs"

text \<open>
  \<^verbatim>\<open>search_and_generate\<close>. With texts and scores of the declared types no step of the
  pipeline raises, so the handler of the enclosing \<^verbatim>\<open>try\<close> is never entered.
  \<open>found\<close> is the retrieval result before the override check reassigns
  \<^verbatim>\<open>relevant_faqs\<close>, \<^verbatim>\<open>faq_matched\<close> and \<^verbatim>\<open>similarity_score\<close>.
\<close>

definition search_and_generate ::
    "(string \<Rightarrow> string \<Rightarrow> real) \<Rightarrow> generator \<Rightarrow> faq list \<Rightarrow> string \<Rightarrow> response" where
  "search_and_generate ratio gen all_faqs query =
     (let query_intent = classify_query_intent query
      in case get_direct_answer_template query_intent query of
           Some direct_answer \<Rightarrow>
             \<lparr> resp_answer = direct_answer,
               resp_relevant_faqs = [],
               resp_grounding_confidence = 1,
               resp_is_grounded = True,
               resp_analytics = build_metadata query direct_answer False 1 False None \<rparr>
         | None \<Rightarrow>
             (let found = keyword_search_faqs ratio all_faqs query 5;
                  found_matched = (0 < length found);
                  found_score = (if found_matched then score_of (hd found) else 0);
                  overridden = (found_matched
                                \<and> should_override_similar_matches query found query_intent);
                  relevant_faqs = (if overridden then [] else found);
                  faq_matched = (if overridden then False else found_matched);
                  sim_score = (if overridden then 0 else found_score)
              in if faq_matched
                    \<and> \<not> validate_context_appropriateness query relevant_faqs sim_score then
                   \<lparr> resp_answer = clarification_answer query,
                     resp_relevant_faqs = [],
                     resp_grounding_confidence = 0.3,
                     resp_is_grounded = False,
                     resp_analytics =
                       build_metadata query (clarification_answer query) False sim_score False None \<rparr>
                 else if relevant_faqs = [] then
                   \<lparr> resp_answer = no_match_answer query,
                     resp_relevant_faqs = [],
                     resp_grounding_confidence = 0,
                     resp_is_grounded = False,
                     resp_analytics =
                       build_metadata query (no_match_answer query) False 0 False None \<rparr>
                 else
                   (let used_gemini = api_key_set gen;
                        intent = fst (detect_intent query);
                        generated_answer = generate_llm_answer gen query relevant_faqs intent;
                        grounding = ground_answer query relevant_faqs generated_answer
                    in \<lparr> resp_answer = grounded_answer grounding,
                         resp_relevant_faqs = clean_faqs relevant_faqs,
                         resp_grounding_confidence = confidence grounding,
                         resp_is_grounded = is_grounded grounding,
                         resp_analytics =
                           build_metadata query (grounded_answer grounding) True sim_score
                             used_gemini (Some (hd relevant_faqs)) \<rparr>)))"

section \<open>Safety gate: \<^verbatim>\<open>app/services/chatbot_safety.py\<close>\<close>

text \<open>
  The state of \<^verbatim>\<open>ChatbotSafety\<close>. The two \<^verbatim>\<open>defaultdict\<close>s are total functions
  (an absent key reads as the empty list, or 0). A time stamp is a number of microseconds;
  the clock value \<open>now\<close> is an argument of every operation that reads the clock.
\<close>

record safety_state =
  user_message_history :: "string \<Rightarrow> (string \<times> int) list"
  user_warnings :: "string \<Rightarrow> nat"
  blocked_users :: "string set"

definition initial_safety :: safety_state where
  "initial_safety =
     \<lparr> user_message_history = (\<lambda>u. []), user_warnings = (\<lambda>u. 0), blocked_users = {} \<rparr>"

text \<open>
  The fixed messages returned with a verdict: none (the empty text), the repeated-question
  warning, the spam-keyword rejection, the respectful-language reminder, the
  instruction-override refusal, the harmful-request notice and the access-restricted notice.
\<close>

datatype reply = NoMessage | RepeatedQuestion | SpamKeyword | AbusiveLanguage
  | PromptInjection | MaliciousRequest | AccessRestricted

definition abuse_patterns :: "pattern list" where
  "abuse_patterns =
     [Lit ''damn'', Lit ''hell'', Lit ''bastard'', Lit ''idiot'', Lit ''stupid'', Lit ''kill'',
      Lit ''die'', Lit ''suck'', Lit ''f*ck'', Lit ''f##k'', Lit ''ass'']"

definition spam_keywords :: "string list" where
  "spam_keywords = [''viagra'', ''casino'', ''lottery'', ''free money'', ''click here'']"

definition prompt_injection_keywords :: "string list" where
  "prompt_injection_keywords =
     [''ignore'', ''forget'', ''bypass'', ''override'', ''system prompt'', ''you are'',
      ''pretend'', ''roleplay'', ''act as'', ''forget instructions'']"

definition malicious_patterns :: "pattern list" where
  "malicious_patterns =
     [Spaces ''drop'' ''table'', Spaces ''delete'' ''from'', Lit ''exec('', Lit ''eval('',
      Lit ''__import__'', Lit ''subprocess'', Lit ''os.system'']"

definition five_minutes :: int where
  "five_minutes = 5 * 60 * 1000000"

definition check_spam :: "safety_state \<Rightarrow> int \<Rightarrow> string \<Rightarrow> string \<Rightarrow> bool \<times> reply" where
  "check_spam st now user_id message =
     (let recent_messages = map fst (filter (\<lambda>(msg, timestamp). now - timestamp < five_minutes)
                                            (user_message_history st user_id));
          identical_count = length (filter (\<lambda>msg. lower msg = lower message) recent_messages)
      in if 3 \<le> identical_count then (True, RepeatedQuestion)
         else if any_in spam_keywords (lower message) then (True, SpamKeyword)
         else (False, NoMessage))"

definition check_abusive_language :: "string \<Rightarrow> bool \<times> reply" where
  "check_abusive_language message =
     (if list_ex (\<lambda>p. re_search p (lower message)) abuse_patterns then (True, AbusiveLanguage)
      else (False, NoMessage))"

definition check_prompt_injection :: "string \<Rightarrow> bool \<times> reply" where
  "check_prompt_injection message =
     (if any_in prompt_injection_keywords (lower message) then (True, PromptInjection)
      else (False, NoMessage))"

definition check_malicious_request :: "string \<Rightarrow> bool \<times> reply" where
  "check_malicious_request message =
     (if list_ex (\<lambda>p. re_search p (lower message)) malicious_patterns then (True, MaliciousRequest)
      else (False, NoMessage))"

definition record_message :: "safety_state \<Rightarrow> int \<Rightarrow> string \<Rightarrow> string \<Rightarrow> safety_state" where
  "record_message st now user_id message =
     (let history = user_message_history st user_id @ [(message, now)];
          history' = (if 50 < length history then drop (length history - 50) history else history)
      in st\<lparr>user_message_history := (user_message_history st)(user_id := history')\<rparr>)"

definition add_warning :: "safety_state \<Rightarrow> string \<Rightarrow> nat \<times> safety_state" where
  "add_warning st user_id =
     (let warning_count = user_warnings st user_id + 1;
          st' = st\<lparr>user_warnings := (user_warnings st)(user_id := warning_count)\<rparr>
      in if 3 \<le> warning_count
         then (warning_count, st'\<lparr>blocked_users := insert user_id (blocked_users st')\<rparr>)
         else (warning_count, st'))"

definition is_user_blocked :: "safety_state \<Rightarrow> string \<Rightarrow> bool" where
  "is_user_blocked st user_id = (user_id \<in> blocked_users st)"

definition reset_user :: "safety_state \<Rightarrow> string \<Rightarrow> safety_state" where
  "reset_user st user_id =
     st\<lparr>blocked_users := blocked_users st - {user_id},
        user_warnings := (user_warnings st)(user_id := 0),
        user_message_history := (user_message_history st)(user_id := [])\<rparr>"

text \<open>
  \<^verbatim>\<open>validate_query\<close>: the verdict and its message, and the state after the call.
\<close>

definition validate_query ::
    "safety_state \<Rightarrow> int \<Rightarrow> string \<Rightarrow> string \<Rightarrow> (bool \<times> reply) \<times> safety_state" where
  "validate_query st now user_id query =
     (if is_user_blocked st user_id then ((False, AccessRestricted), st)
      else case check_spam st now user_id query of
        (True, spam_msg) \<Rightarrow> ((False, spam_msg), snd (add_warning st user_id))
      | (False, _) \<Rightarrow>
       (case check_abusive_language query of
          (True, abuse_msg) \<Rightarrow> ((False, abuse_msg), snd (add_warning st user_id))
        | (False, _) \<Rightarrow>
         (case check_prompt_injection query of
            (True, injection_msg) \<Rightarrow> ((False, injection_msg), snd (add_warning st user_id))
          | (False, _) \<Rightarrow>
           (case check_malicious_request query of
              (True, malicious_msg) \<Rightarrow> ((False, malicious_msg), reset_user st user_id)
            | (False, _) \<Rightarrow> ((True, NoMessage), record_message st now user_id query)))))"

section \<open>Sample corpus entries for the concrete runs\<close>

definition faq_fuel_report :: faq where
  "faq_fuel_report =
     \<lparr> faq_id = ''faq_00'', question = ''fuel report'', answer = ''Coming soon.'',
       category = None, similarity_score = None \<rparr>"

definition faq_fuel_costs :: faq where
  "faq_fuel_costs =
     \<lparr> faq_id = ''faq_01'', question = ''fuel costs'', answer = ''Open the fuel tab.'',
       category = Some ''Fuel'', similarity_score = None \<rparr>"

definition faq_fuel_general :: faq where
  "faq_fuel_general =
     \<lparr> faq_id = ''faq_02'', question = ''fuel costs'', answer = ''Open the fuel tab.'',
       category = Some ''General'', similarity_score = None \<rparr>"

definition faq_Fuel_report :: faq where
  "faq_Fuel_report =
     \<lparr> faq_id = ''faq_03'', question = ''Fuel report'', answer = ''Open the reports tab.'',
       category = None, similarity_score = None \<rparr>"

definition faq_fuel_report2 :: faq where
  "faq_fuel_report2 =
     \<lparr> faq_id = ''faq_04'', question = ''fuel report'', answer = ''Open the fuel tab.'',
       category = None, similarity_score = None \<rparr>"

definition faq_export :: faq where
  "faq_export =
     \<lparr> faq_id = ''faq_05'', question = ''export a report'', answer = ''Use the export button.'',
       category = Some ''Export'', similarity_score = None \<rparr>"

definition faq_maintenance :: faq where
  "faq_maintenance =
     \<lparr> faq_id = ''faq_06'', question = ''vehicle maintenance'', answer = ''Use the service tab.'',
       category = None, similarity_score = None \<rparr>"

definition faq_add_vehicle :: faq where
  "faq_add_vehicle =
     \<lparr> faq_id = ''faq_07'', question = ''add a vehicle'', answer = ''Use the vehicles tab.'',
       category = None, similarity_score = None \<rparr>"


text \<open>A deployment without the external generator: no API key, no model.\<close>

definition no_generator :: generator where
  "no_generator =
     \<lparr> api_key_set = False, model_ready = False, generate_content = (\<lambda>q fs i. None) \<rparr>"

text \<open>A user who has one accepted message on record.\<close>

definition returning_user :: safety_state where
  "returning_user = snd (validate_query initial_safety 0 ''u1'' ''fuel report'')"

section \<open>Properties of the text primitives\<close>

lemma startswith_iff: "startswith s p \<longleftrightarrow> (\<exists>r. s = p @ r)"
  by (induction s p rule: startswith.induct) auto

lemma str_in_iff: "str_in sub s \<longleftrightarrow> (\<exists>p r. s = p @ sub @ r)"
proof (induction s)
  case Nil
  then show ?case by auto
next
  case (Cons c cs)
  show ?case
  proof
    assume "str_in sub (c # cs)"
    then consider "startswith (c # cs) sub" | "str_in sub cs" by auto
    then show "\<exists>p r. c # cs = p @ sub @ r"
    proof cases
      case 1
      then obtain r where "c # cs = sub @ r" by (auto simp: startswith_iff)
      then have "c # cs = [] @ sub @ r" by simp
      then show ?thesis by blast
    next
      case 2
      then obtain p r where "cs = p @ sub @ r" using Cons.IH by blast
      then have "c # cs = (c # p) @ sub @ r" by simp
      then show ?thesis by blast
    qed
  next
    assume "\<exists>p r. c # cs = p @ sub @ r"
    then obtain p r where pr: "c # cs = p @ sub @ r" by blast
    show "str_in sub (c # cs)"
    proof (cases p)
      case Nil
      with pr have "startswith (c # cs) sub" by (auto simp: startswith_iff)
      then show ?thesis by simp
    next
      case (Cons d p')
      with pr have "cs = p' @ sub @ r" by simp
      then have "str_in sub cs" using Cons.IH by blast
      then show ?thesis by simp
    qed
  qed
qed

lemma str_in_lower: "str_in m a \<Longrightarrow> str_in (lower m) (lower a)"
  unfolding str_in_iff lower_def by (metis map_append)

lemma any_in_iff: "any_in ts s \<longleftrightarrow> (\<exists>t\<in>set ts. str_in t s)"
  by (simp add: any_in_def list_ex_iff)

section \<open>Properties of the lexical matcher, the retrieval step and the safety gate\<close>

lemma search_loop_filter:
  "search_loop ratio query intent t faqs
   = filter (\<lambda>(f, s). t \<le> s) (map (\<lambda>f. (f, faq_similarity ratio query intent f)) faqs)"
  by (induction faqs) (simp_all add: Let_def)

lemma faq_similarity_spec:
  "faq_similarity ratio query (fst (detect_intent query)) f = spec_boosted ratio query f"
  by (simp add: faq_similarity_def spec_boosted_def boost_applies_def base_similarity_def
      spec_final_def spec_similarity_def calculate_similarity_def category_matches_def Let_def
      mult.commute split: option.splits)

lemma search_faqs_unfold:
  "search_faqs ratio query faqs top_k threshold =
     (if strip query = [] then []
      else py_prefix top_k (sort_key (\<lambda>x. - snd x)
             (filter (\<lambda>(f, s). threshold \<le> s) (map (\<lambda>f. (f, spec_boosted ratio query f)) faqs))))"
proof -
  obtain intent c where ic: "detect_intent query = (intent, c)" by (cases "detect_intent query")
  then have "intent = fst (detect_intent query)" by simp
  then have "\<And>f. faq_similarity ratio query intent f = spec_boosted ratio query f"
    by (simp add: faq_similarity_spec)
  with ic show ?thesis
    by (simp add: search_faqs_def search_loop_filter)
qed

lemma py_prefix_member: "x \<in> set (py_prefix k xs) \<Longrightarrow> x \<in> set xs"
  by (auto simp: py_prefix_def dest: in_set_takeD split: if_splits)

lemma kept_member:
  "(f, s) \<in> set (filter (\<lambda>(f, s). t \<le> s) (map (\<lambda>f. (f, g f)) faqs))
   \<Longrightarrow> f \<in> set faqs \<and> t \<le> s \<and> s = g f"
  by (induction faqs) (auto split: if_splits)

lemma search_faqs_member:
  assumes "(f, s) \<in> set (search_faqs ratio query faqs top_k threshold)"
  shows "f \<in> set faqs \<and> threshold \<le> s \<and> s = spec_boosted ratio query f"
proof (cases "strip query = []")
  case True
  with assms show ?thesis by (simp add: search_faqs_unfold)
next
  case False
  let ?kept = "filter (\<lambda>(f, s). threshold \<le> s) (map (\<lambda>f. (f, spec_boosted ratio query f)) faqs)"
  from False have "search_faqs ratio query faqs top_k threshold
                   = py_prefix top_k (sort_key (\<lambda>x. - snd x) ?kept)"
    by (simp only: search_faqs_unfold if_False)
  with assms have "(f, s) \<in> set (py_prefix top_k (sort_key (\<lambda>x. - snd x) ?kept))"
    by (simp only:)
  then have "(f, s) \<in> set (sort_key (\<lambda>x. - snd x) ?kept)"
    by (rule py_prefix_member)
  then have "(f, s) \<in> set ?kept" by (simp only: set_sort)
  then show ?thesis by (rule kept_member)
qed

lemma hd_filter_same:
  assumes "xs \<noteq> []" and "P (hd xs)"
  shows "hd (filter P xs) = hd xs"
  using assms by (cases xs) simp_all

lemma filter_score_map:
  "filter (\<lambda>x. snd x = k) (filter (\<lambda>(f, s). t \<le> s) (map (\<lambda>f. (f, g f)) faqs))
   = map (\<lambda>f. (f, k)) (filter (\<lambda>f. g f = k \<and> t \<le> k) faqs)"
  by (induction faqs) auto

lemma sorted_hd_min:
  assumes "sorted (map key xs)" and "x \<in> set xs"
  shows "key (hd xs) \<le> key x"
  using assms by (cases xs) auto

lemma max_list_Max:
  assumes "xs \<noteq> []"
  shows "max_list xs = Max (set xs)"
proof (cases xs)
  case Nil
  with assms show ?thesis by simp
next
  case (Cons y ys)
  have "Max (set (y # ys)) = fold max ys y" by (rule Max.set_eq_fold)
  with Cons show ?thesis by simp
qed

lemma outdated_markers_lower: "m \<in> set outdated_markers \<Longrightarrow> lower m = m"
  by (auto simp: outdated_markers_def lower_def lower_char_def)

lemma freshness_loop_member:
  assumes "g \<in> set (freshness_loop rs)"
  shows "\<exists>f s. (f, s) \<in> set rs \<and> validate_answer_freshness f
               \<and> g = f\<lparr>similarity_score := Some s\<rparr>"
  using assms
proof (induction rs)
  case Nil
  then show ?case by simp
next
  case (Cons r rs)
  obtain f s where r: "r = (f, s)" by (cases r)
  show ?case
  proof (cases "validate_answer_freshness f")
    case True
    with Cons.prems r consider "g = f\<lparr>similarity_score := Some s\<rparr>" | "g \<in> set (freshness_loop rs)"
      by auto
    then show ?thesis
    proof cases
      case 1
      with True r show ?thesis by auto
    next
      case 2
      with Cons.IH show ?thesis by auto
    qed
  next
    case False
    with Cons.prems r have "g \<in> set (freshness_loop rs)" by simp
    with Cons.IH show ?thesis by auto
  qed
qed

lemma keyword_search_empty_corpus: "keyword_search_faqs ratio [] query top_k = []"
  by (simp add: keyword_search_faqs_def)

lemma validate_query_accept:
  assumes "u \<notin> blocked_users st"
    and "check_spam st now u q = (False, NoMessage)"
    and "check_abusive_language q = (False, NoMessage)"
    and "check_prompt_injection q = (False, NoMessage)"
    and "check_malicious_request q = (False, NoMessage)"
  shows "validate_query st now u q = ((True, NoMessage), record_message st now u q)"
  using assms by (simp add: validate_query_def is_user_blocked_def)

lemma record_message_suffix:
  assumes "user_message_history st u = old @ new" and "length new < 50"
  shows "\<exists>old'. set old' \<subseteq> set old
           \<and> user_message_history (record_message st now u q) u = old' @ new @ [(q, now)]"
proof (cases "50 < length (old @ new @ [(q, now)])")
  case True
  let ?d = "length (old @ new @ [(q, now)]) - 50"
  from assms(2) have d: "?d \<le> length old" by simp
  have "drop ?d (old @ new @ [(q, now)]) = drop ?d old @ drop (?d - length old) (new @ [(q, now)])"
    by (rule drop_append)
  also from d have "?d - length old = 0" by simp
  finally have dr: "drop ?d (old @ new @ [(q, now)]) = drop ?d old @ new @ [(q, now)]" by simp
  from True assms(1) have "user_message_history (record_message st now u q) u
      = drop ?d (old @ new @ [(q, now)])"
    by (simp add: record_message_def Let_def)
  with dr have "user_message_history (record_message st now u q) u = drop ?d old @ new @ [(q, now)]"
    by simp
  moreover have "set (drop ?d old) \<subseteq> set old" by (rule set_drop_subset)
  ultimately show ?thesis by blast
next
  case False
  with assms(1) have "user_message_history (record_message st now u q) u = old @ new @ [(q, now)]"
    by (simp add: record_message_def Let_def)
  then show ?thesis by blast
qed

lemma record_message_blocked: "blocked_users (record_message st now u q) = blocked_users st"
  by (simp add: record_message_def Let_def)

lemma check_spam_count:
  "check_spam st now u q =
     (if 3 \<le> length (filter (\<lambda>(m, t). now - t < five_minutes \<and> lower m = lower q)
                        (user_message_history st u))
      then (True, RepeatedQuestion)
      else if any_in spam_keywords (lower q) then (True, SpamKeyword)
      else (False, NoMessage))"
proof -
  have "filter (\<lambda>msg. lower msg = lower q) (map fst (filter (\<lambda>(m, t). now - t < five_minutes) h))
        = map fst (filter (\<lambda>(m, t). now - t < five_minutes \<and> lower m = lower q) h)" for h
    by (induction h) auto
  then show ?thesis by (simp add: check_spam_def Let_def)
qed

lemma no_identical_filter:
  assumes "\<forall>(m, t)\<in>set old. lower m \<noteq> lower q" and "set old' \<subseteq> set old"
  shows "filter (\<lambda>(m, t). now - t < five_minutes \<and> lower m = lower q) old' = []"
  using assms by (auto simp: filter_empty_conv)

section \<open>Ranking of the search results\<close>

text \<open>
  Claim C1, as the code has it. For a non-negative \<open>top_k\<close>, \<^verbatim>\<open>search_faqs\<close>
  returns nothing for a blank query; otherwise it returns the first \<open>top_k\<close> elements
  of a ranking \<open>ranked\<close> that holds exactly the entries whose score is at least the
  threshold (with their multiplicity), is sorted by descending score, and keeps the corpus
  order among entries of equal score. The score is
  \<open>max(question similarity, 0.5 * answer similarity)\<close> with the similarity
  \<open>0.4 * direct + 0.6 * expanded\<close>, multiplied by 1.2 and capped at 1 when the entry's
  category matches the detected intent (\<open>spec_boosted\<close>).
\<close>

theorem search_faqs_ranking:
  assumes "0 \<le> top_k"
  shows "\<exists>ranked.
           search_faqs ratio query faqs top_k threshold
             = (if strip query = [] then [] else take (nat top_k) ranked)
         \<and> mset ranked = mset (filter (\<lambda>(f, s). threshold \<le> s)
                                 (map (\<lambda>f. (f, spec_boosted ratio query f)) faqs))
         \<and> sorted_wrt (\<lambda>x y. snd y \<le> snd x) ranked
         \<and> (\<forall>k. filter (\<lambda>x. snd x = k) ranked
                = filter (\<lambda>x. snd x = k)
                    (filter (\<lambda>(f, s). threshold \<le> s)
                       (map (\<lambda>f. (f, spec_boosted ratio query f)) faqs)))"
proof -
  let ?kept = "filter (\<lambda>(f, s). threshold \<le> s) (map (\<lambda>f. (f, spec_boosted ratio query f)) faqs)"
  let ?ranked = "sort_key (\<lambda>x. - snd x) ?kept"
  have m: "mset ?ranked = mset ?kept" by simp
  have "sorted (map (\<lambda>x. - snd x) ?ranked)" by (rule sorted_sort_key)
  then have s: "sorted_wrt (\<lambda>x y. snd y \<le> snd x) ?ranked"
    by (simp add: sorted_map)
  have st: "filter (\<lambda>x. snd x = k) ?ranked = filter (\<lambda>x. snd x = k) ?kept" for k
  proof -
    have "filter (\<lambda>x. - snd x = - k) ?ranked = filter (\<lambda>x. - snd x = - k) ?kept"
      by (rule sort_key_stable)
    then show ?thesis by simp
  qed
  have "search_faqs ratio query faqs top_k threshold
        = (if strip query = [] then [] else take (nat top_k) ?ranked)"
    using assms by (simp add: search_faqs_unfold py_prefix_def)
  with m s st show ?thesis by blast
qed

theorem search_faqs_ranking_witness:
  "(0 :: int) \<le> 5
   \<and> strip ''fuel report'' \<noteq> []
   \<and> search_faqs sequence_matcher_ratio ''fuel report'' [faq_fuel_costs, faq_fuel_report] 5 0.3
       = [(faq_fuel_report, 1), (faq_fuel_costs, 209 / 480)]
   \<and> (\<exists>ranked.
         search_faqs sequence_matcher_ratio ''fuel report'' [faq_fuel_costs, faq_fuel_report] 5 0.3
           = (if strip ''fuel report'' = [] then [] else take (nat 5) ranked)
       \<and> mset ranked = mset (filter (\<lambda>(f, s). 0.3 \<le> s)
                               (map (\<lambda>f. (f, spec_boosted sequence_matcher_ratio ''fuel report'' f))
                                  [faq_fuel_costs, faq_fuel_report]))
       \<and> sorted_wrt (\<lambda>x y. snd y \<le> snd x) ranked
       \<and> (\<forall>k. filter (\<lambda>x. snd x = k) ranked
              = filter (\<lambda>x. snd x = k)
                  (filter (\<lambda>(f, s). 0.3 \<le> s)
                     (map (\<lambda>f. (f, spec_boosted sequence_matcher_ratio ''fuel report'' f))
                        [faq_fuel_costs, faq_fuel_report]))))"
proof -
  have k: "(0 :: int) \<le> 5" by simp
  have nonblank: "strip ''fuel report'' \<noteq> []" by code_simp
  have run: "search_faqs sequence_matcher_ratio ''fuel report'' [faq_fuel_costs, faq_fuel_report] 5 0.3
             = [(faq_fuel_report, 1), (faq_fuel_costs, 209 / 480)]"
    by code_simp
  note search_faqs_ranking [OF k, of sequence_matcher_ratio "''fuel report''"
      "[faq_fuel_costs, faq_fuel_report]" "0.3"]
  with k nonblank run show ?thesis by (intro conjI)
qed

text \<open>
  Claim C1 as stated leaves the category boost out: for the query \<open>fuel\<close> and the
  threshold 0.6 the entry below has the final score 4/7, below the threshold, and is
  returned all the same, with the boosted score 24/35.
\<close>

theorem search_faqs_boost_counterexample:
  "spec_final sequence_matcher_ratio ''fuel'' faq_fuel_general = 4 / 7
   \<and> (4 / 7 :: real) < 0.6
   \<and> search_faqs sequence_matcher_ratio ''fuel'' [faq_fuel_general] 5 0.6
       = [(faq_fuel_general, 24 / 35)]"
  by code_simp

section \<open>Grounding\<close>

text \<open>
  Claim C2. \<^verbatim>\<open>ground_answer\<close> is grounded exactly for a non-empty match list. When
  grounded, the confidence is the maximum similarity score of the matches, and the answer
  gets the fixed note appended if that confidence is below 0.6 and is returned unchanged
  otherwise. For the empty list the answer is replaced by the contact-support message (a
  fixed template around the query, independent of the candidate answer) and the confidence
  is 0.
\<close>

theorem ground_answer_grounding:
  assumes "matches \<noteq> []"
  shows "is_grounded (ground_answer query matches ans)
       \<and> confidence (ground_answer query matches ans) = Max (score_of ` set matches)
       \<and> grounded_answer (ground_answer query matches ans)
           = (if Max (score_of ` set matches) < 0.6 then ans @ grounding_note else ans)
       \<and> grounding_note \<noteq> []
       \<and> \<not> is_grounded (ground_answer query [] ans)
       \<and> grounded_answer (ground_answer query [] ans) = not_found_answer query
       \<and> confidence (ground_answer query [] ans) = 0"
proof -
  from assms have "max_list (map score_of matches) = Max (score_of ` set matches)"
    by (simp add: max_list_Max)
  moreover have "grounding_note \<noteq> []" by (simp add: grounding_note_def)
  ultimately show ?thesis using assms
    by (simp add: ground_answer_def Let_def)
qed

theorem ground_answer_grounding_witness:
  "[faq_fuel_costs\<lparr>similarity_score := Some 0.45\<rparr>, faq_export] \<noteq> []
   \<and> is_grounded (ground_answer ''fuel''
        [faq_fuel_costs\<lparr>similarity_score := Some 0.45\<rparr>, faq_export] ''Open the fuel tab.'')
   \<and> confidence (ground_answer ''fuel''
        [faq_fuel_costs\<lparr>similarity_score := Some 0.45\<rparr>, faq_export] ''Open the fuel tab.'') = 0.45
   \<and> grounded_answer (ground_answer ''fuel''
        [faq_fuel_costs\<lparr>similarity_score := Some 0.45\<rparr>, faq_export] ''Open the fuel tab.'')
       = ''Open the fuel tab.'' @ grounding_note
   \<and> \<not> is_grounded (ground_answer ''fuel'' [] ''Open the fuel tab.'')
   \<and> grounded_answer (ground_answer ''fuel'' [] ''Open the fuel tab.'') = not_found_answer ''fuel''
   \<and> confidence (ground_answer ''fuel'' [] ''Open the fuel tab.'') = 0"
proof -
  let ?ms = "[faq_fuel_costs\<lparr>similarity_score := Some 0.45\<rparr>, faq_export]"
  have ne: "?ms \<noteq> []" by simp
  have mx: "Max (score_of ` set ?ms) = 0.45"
    by (simp add: score_of_def faq_fuel_costs_def faq_export_def)
  from ground_answer_grounding [OF ne, of "''fuel''" "''Open the fuel tab.''"] mx ne
  show ?thesis by simp
qed

section \<open>Freshness filter\<close>

text \<open>
  Claim C3. No entry returned by the retrieval step \<^verbatim>\<open>_keyword_search_faqs\<close> has an
  answer that contains a staleness marker, in any letter case; every returned entry is a
  corpus entry with its score attached. The score plays no part: in the run below the
  stale entry has the top score 1 and is left out.
\<close>

theorem retrieval_excludes_stale:
  assumes "f \<in> set (keyword_search_faqs ratio all_faqs query top_k)"
    and "m \<in> set outdated_markers"
  shows "\<not> str_in m (lower (answer f)) \<and> \<not> str_in m (answer f)
       \<and> (\<exists>e s. e \<in> set all_faqs \<and> answer e = answer f \<and> f = e\<lparr>similarity_score := Some s\<rparr>)"
proof -
  from assms(1) have "f \<in> set (freshness_loop (search_faqs ratio query all_faqs top_k 0.3))"
    by (auto simp: keyword_search_faqs_def Let_def split: if_splits)
  then obtain e s where
    es: "(e, s) \<in> set (search_faqs ratio query all_faqs top_k 0.3)"
    and fresh: "validate_answer_freshness e"
    and f: "f = e\<lparr>similarity_score := Some s\<rparr>"
    using freshness_loop_member [of f "search_faqs ratio query all_faqs top_k 0.3"] by auto
  from fresh assms(2) have n1: "\<not> str_in m (lower (answer e))"
    by (auto simp: validate_answer_freshness_def any_in_iff)
  have n2: "\<not> str_in m (answer e)"
  proof
    assume "str_in m (answer e)"
    then have "str_in (lower m) (lower (answer e))" by (rule str_in_lower)
    with assms(2) n1 show False by (simp add: outdated_markers_lower)
  qed
  from es have "e \<in> set all_faqs \<and> 0.3 \<le> s \<and> s = spec_boosted ratio query e"
    by (rule search_faqs_member)
  then have "e \<in> set all_faqs" by simp
  with n1 n2 f show ?thesis by auto
qed

theorem retrieval_excludes_stale_witness:
  "search_faqs sequence_matcher_ratio ''fuel report'' [faq_fuel_report, faq_fuel_costs] 5 0.3
     = [(faq_fuel_report, 1), (faq_fuel_costs, 209 / 480)]
   \<and> str_in ''coming soon'' (lower (answer faq_fuel_report))
   \<and> keyword_search_faqs sequence_matcher_ratio [faq_fuel_report, faq_fuel_costs] ''fuel report'' 5
       = [faq_fuel_costs\<lparr>similarity_score := Some (209 / 480)\<rparr>]
   \<and> ''coming soon'' \<in> set outdated_markers
   \<and> \<not> str_in ''coming soon'' (lower (answer (faq_fuel_costs\<lparr>similarity_score := Some (209 / 480)\<rparr>)))
   \<and> \<not> str_in ''coming soon'' (answer (faq_fuel_costs\<lparr>similarity_score := Some (209 / 480)\<rparr>))"
proof -
  let ?kept = "faq_fuel_costs\<lparr>similarity_score := Some (209 / 480)\<rparr>"
  have search: "search_faqs sequence_matcher_ratio ''fuel report'' [faq_fuel_report, faq_fuel_costs] 5 0.3
                = [(faq_fuel_report, 1), (faq_fuel_costs, 209 / 480)]"
    by code_simp
  have stale: "str_in ''coming soon'' (lower (answer faq_fuel_report))" by code_simp
  have run: "keyword_search_faqs sequence_matcher_ratio [faq_fuel_report, faq_fuel_costs] ''fuel report'' 5
             = [?kept]"
    by code_simp
  then have mem: "?kept \<in> set (keyword_search_faqs sequence_matcher_ratio
                     [faq_fuel_report, faq_fuel_costs] ''fuel report'' 5)"
    by simp
  have marker: "''coming soon'' \<in> set outdated_markers" by (simp add: outdated_markers_def)
  from retrieval_excludes_stale [OF mem marker] search stale run marker
  show ?thesis by simp
qed

section \<open>Override check\<close>

text \<open>
  Claim C4, as the code has it. When the query has no direct-answer template, retrieval
  returns at least two matches and the top match conflicts with the classified domain of
  the query per the override rule, the override check fires, all matches are discarded and
  the pipeline answers as it does for an empty retrieval: the no-match answer, confidence
  0, not grounded.
\<close>

theorem override_discards_matches:
  assumes template: "get_direct_answer_template (classify_query_intent query) query = None"
    and found: "found = keyword_search_faqs ratio all_faqs query 5"
    and two: "2 \<le> length found"
    and conflict:
      "(classify_query_intent query = ''registration''
          \<and> any_in [''password'', ''forgot'', ''reset''] (lower (question (hd found))))
       \<or> (classify_query_intent query = ''password_help''
          \<and> any_in [''register'', ''sign up'', ''create account''] (lower (question (hd found))))
       \<or> (classify_query_intent query = ''vehicle_management''
          \<and> any_in [''maintenance'', ''service'', ''repair''] (lower (question (hd found))))"
  shows "should_override_similar_matches query found (classify_query_intent query)
       \<and> search_and_generate ratio gen all_faqs query = search_and_generate ratio gen [] query
       \<and> resp_answer (search_and_generate ratio gen all_faqs query) = no_match_answer query
       \<and> resp_relevant_faqs (search_and_generate ratio gen all_faqs query) = []
       \<and> resp_grounding_confidence (search_and_generate ratio gen all_faqs query) = 0
       \<and> \<not> resp_is_grounded (search_and_generate ratio gen all_faqs query)"
proof -
  have ne: "found \<noteq> []"
  proof
    assume "found = []"
    then have "length found = 0" by simp
    with two show False by simp
  qed
  from two have len: "\<not> length found < 2" by linarith
  from conflict ne len
  have ov: "should_override_similar_matches query found (classify_query_intent query)"
    by (auto simp: should_override_similar_matches_def Let_def)
  from ne have pos: "0 < length found" by simp
  have run: "search_and_generate ratio gen all_faqs query =
      \<lparr> resp_answer = no_match_answer query,
        resp_relevant_faqs = [],
        resp_grounding_confidence = 0,
        resp_is_grounded = False,
        resp_analytics = build_metadata query (no_match_answer query) False 0 False None \<rparr>"
    using template found [symmetric] ov pos
    by (simp add: search_and_generate_def Let_def)
  have empty: "search_and_generate ratio gen [] query =
      \<lparr> resp_answer = no_match_answer query,
        resp_relevant_faqs = [],
        resp_grounding_confidence = 0,
        resp_is_grounded = False,
        resp_analytics = build_metadata query (no_match_answer query) False 0 False None \<rparr>"
    using template
    by (simp add: search_and_generate_def Let_def keyword_search_empty_corpus)
  from ov run empty show ?thesis by simp
qed

theorem override_discards_matches_witness:
  "get_direct_answer_template (classify_query_intent ''vehicle maintenance'') ''vehicle maintenance'' = None
   \<and> keyword_search_faqs sequence_matcher_ratio [faq_add_vehicle, faq_maintenance] ''vehicle maintenance'' 5
       = [faq_maintenance\<lparr>similarity_score := Some 1\<rparr>,
          faq_add_vehicle\<lparr>similarity_score := Some (3197 / 6200)\<rparr>]
   \<and> classify_query_intent ''vehicle maintenance'' = ''vehicle_management''
   \<and> search_and_generate sequence_matcher_ratio no_generator [faq_add_vehicle, faq_maintenance]
         ''vehicle maintenance''
       = search_and_generate sequence_matcher_ratio no_generator [] ''vehicle maintenance''
   \<and> resp_answer (search_and_generate sequence_matcher_ratio no_generator
         [faq_add_vehicle, faq_maintenance] ''vehicle maintenance'')
       = no_match_answer ''vehicle maintenance''
   \<and> \<not> resp_is_grounded (search_and_generate sequence_matcher_ratio no_generator
         [faq_add_vehicle, faq_maintenance] ''vehicle maintenance'')"
proof -
  let ?q = "''vehicle maintenance''"
  let ?found = "[faq_maintenance\<lparr>similarity_score := Some 1\<rparr>,
                 faq_add_vehicle\<lparr>similarity_score := Some (3197 / 6200)\<rparr>]"
  have template: "get_direct_answer_template (classify_query_intent ?q) ?q = None" by code_simp
  have run: "keyword_search_faqs sequence_matcher_ratio [faq_add_vehicle, faq_maintenance] ?q 5 = ?found"
    by code_simp
  have two: "2 \<le> length ?found" by simp
  have intent: "classify_query_intent ?q = ''vehicle_management''" by code_simp
  have top: "any_in [''maintenance'', ''service'', ''repair''] (lower (question (hd ?found)))"
    by code_simp
  from intent top have conflict:
    "(classify_query_intent ?q = ''registration''
        \<and> any_in [''password'', ''forgot'', ''reset''] (lower (question (hd ?found))))
     \<or> (classify_query_intent ?q = ''password_help''
        \<and> any_in [''register'', ''sign up'', ''create account''] (lower (question (hd ?found))))
     \<or> (classify_query_intent ?q = ''vehicle_management''
        \<and> any_in [''maintenance'', ''service'', ''repair''] (lower (question (hd ?found))))"
    by blast
  note w = override_discards_matches [OF template run [symmetric] two conflict, of no_generator]
  note same = w [THEN conjunct2, THEN conjunct1]
  note ans = w [THEN conjunct2, THEN conjunct2, THEN conjunct1]
  note ungrounded = w [THEN conjunct2, THEN conjunct2, THEN conjunct2, THEN conjunct2, THEN conjunct2]
  from template run intent same ans ungrounded show ?thesis by (intro conjI)
qed

text \<open>
  Claim C4 as stated fails for a single match: the override check returns early when there
  are fewer than two matches. The vehicle query below retrieves one maintenance question,
  which is kept and answered from.
\<close>

theorem override_single_match_counterexample:
  "classify_query_intent ''vehicle'' = ''vehicle_management''
   \<and> keyword_search_faqs sequence_matcher_ratio [faq_maintenance] ''vehicle'' 5
       = [faq_maintenance\<lparr>similarity_score := Some (475 / 793)\<rparr>]
   \<and> any_in [''maintenance'', ''service'', ''repair''] (lower (question faq_maintenance))
   \<and> resp_is_grounded (search_and_generate sequence_matcher_ratio no_generator [faq_maintenance] ''vehicle'')
   \<and> resp_answer (search_and_generate sequence_matcher_ratio no_generator [faq_maintenance] ''vehicle'')
       = ''Use the service tab.'' @ grounding_note
   \<and> resp_relevant_faqs (search_and_generate sequence_matcher_ratio no_generator [faq_maintenance] ''vehicle'')
       = clean_faqs [faq_maintenance]"
  by code_simp

section \<open>Context validator\<close>



section \<open>Repeated queries\<close>

text \<open>
  Claim C6, as the code has it. Take a user who is not blocked and has no recorded message
  equal, ignoring case, to the query \<open>q\<close> or to a second query \<open>q'\<close>, and let
  \<open>q\<close> pass the keyword, abuse, injection and payload checks. Then the first three
  submissions of \<open>q\<close> are all accepted, a fourth submission within five minutes of the
  first three is rejected as a repeated question, and \<open>q'\<close>, if it differs from
  \<open>q\<close> ignoring case and has no spam keyword, is not spam at that point.
\<close>

theorem repeated_query_spam:
  assumes unseen: "\<forall>(m, t)\<in>set (user_message_history st u). lower m \<noteq> lower q \<and> lower m \<noteq> lower q'"
    and unblocked: "u \<notin> blocked_users st"
    and no_keyword: "\<not> any_in spam_keywords (lower q)"
    and polite: "check_abusive_language q = (False, NoMessage)"
    and no_injection: "check_prompt_injection q = (False, NoMessage)"
    and harmless: "check_malicious_request q = (False, NoMessage)"
    and window: "t4 - t1 < five_minutes" "t4 - t2 < five_minutes" "t4 - t3 < five_minutes"
    and s1: "s1 = snd (validate_query st t1 u q)"
    and s2: "s2 = snd (validate_query s1 t2 u q)"
    and s3: "s3 = snd (validate_query s2 t3 u q)"
    and other: "lower q' \<noteq> lower q" "\<not> any_in spam_keywords (lower q')"
  shows "fst (validate_query st t1 u q) = (True, NoMessage)
       \<and> fst (validate_query s1 t2 u q) = (True, NoMessage)
       \<and> fst (validate_query s2 t3 u q) = (True, NoMessage)
       \<and> fst (validate_query s3 t4 u q) = (False, RepeatedQuestion)
       \<and> check_spam s3 t4 u q' = (False, NoMessage)"
proof -
  let ?h0 = "user_message_history st u"
  let ?P = "\<lambda>now x. \<lambda>(m, t). now - t < five_minutes \<and> lower m = lower x"
  from unseen have un_q: "\<forall>(m, t)\<in>set ?h0. lower m \<noteq> lower q"
    and un_q': "\<forall>(m, t)\<in>set ?h0. lower m \<noteq> lower q'"
    by auto
  have quiet: "filter (?P now q) old' = []" "filter (?P now q') old' = []"
    if "set old' \<subseteq> set ?h0" for now old'
    using no_identical_filter [OF un_q that] no_identical_filter [OF un_q' that] by simp_all
  have c1: "check_spam st t1 u q = (False, NoMessage)"
    using quiet(1) [of ?h0 t1] no_keyword by (simp add: check_spam_count)
  have v1: "validate_query st t1 u q = ((True, NoMessage), record_message st t1 u q)"
    using unblocked c1 polite no_injection harmless by (rule validate_query_accept)
  then have s1': "s1 = record_message st t1 u q" using s1 by simp
  have "user_message_history st u = ?h0 @ []" by simp
  from record_message_suffix [OF this, of t1 q] s1'
  obtain o1 where o1: "set o1 \<subseteq> set ?h0" and h1: "user_message_history s1 u = o1 @ [(q, t1)]"
    by auto
  have b1: "u \<notin> blocked_users s1" using unblocked s1' by (simp add: record_message_blocked)
  have "length (filter (?P t2 q) (o1 @ [(q, t1)])) \<le> 1"
    using quiet(1) [OF o1, of t2] by simp
  then have c2: "check_spam s1 t2 u q = (False, NoMessage)"
    using h1 no_keyword by (simp add: check_spam_count)
  have v2: "validate_query s1 t2 u q = ((True, NoMessage), record_message s1 t2 u q)"
    using b1 c2 polite no_injection harmless by (rule validate_query_accept)
  then have s2': "s2 = record_message s1 t2 u q" using s2 by simp
  from record_message_suffix [OF h1, of t2 q] s2'
  obtain o2 where o2': "set o2 \<subseteq> set o1"
    and h2: "user_message_history s2 u = o2 @ [(q, t1), (q, t2)]"
    by auto
  from o2' o1 have o2: "set o2 \<subseteq> set ?h0" by simp
  have b2: "u \<notin> blocked_users s2" using b1 s2' by (simp add: record_message_blocked)
  have "length (filter (?P t3 q) (o2 @ [(q, t1), (q, t2)])) \<le> 2"
    using quiet(1) [OF o2, of t3] by simp
  then have c3: "check_spam s2 t3 u q = (False, NoMessage)"
    using h2 no_keyword by (simp add: check_spam_count)
  have v3: "validate_query s2 t3 u q = ((True, NoMessage), record_message s2 t3 u q)"
    using b2 c3 polite no_injection harmless by (rule validate_query_accept)
  then have s3': "s3 = record_message s2 t3 u q" using s3 by simp
  from record_message_suffix [OF h2, of t3 q] s3'
  obtain o3 where o3': "set o3 \<subseteq> set o2"
    and h3: "user_message_history s3 u = o3 @ [(q, t1), (q, t2), (q, t3)]"
    by auto
  from o3' o2 have o3: "set o3 \<subseteq> set ?h0" by simp
  have b3: "u \<notin> blocked_users s3" using b2 s3' by (simp add: record_message_blocked)
  have "filter (?P t4 q) (o3 @ [(q, t1), (q, t2), (q, t3)]) = [(q, t1), (q, t2), (q, t3)]"
    using quiet(1) [OF o3, of t4] window by simp
  then have c4: "check_spam s3 t4 u q = (True, RepeatedQuestion)"
    using h3 by (simp add: check_spam_count)
  have v4: "fst (validate_query s3 t4 u q) = (False, RepeatedQuestion)"
    using b3 c4 by (simp add: validate_query_def is_user_blocked_def)
  have "filter (?P t4 q') (o3 @ [(q, t1), (q, t2), (q, t3)]) = []"
    using quiet(2) [OF o3, of t4] other(1) by auto
  then have c4': "check_spam s3 t4 u q' = (False, NoMessage)"
    using h3 other(2) by (simp add: check_spam_count)
  from v1 v2 v3 v4 c4' show ?thesis by simp
qed

theorem repeated_query_spam_witness:
  "user_message_history returning_user ''u1'' = [(''fuel report'', 0)]
   \<and> fst (validate_query returning_user 1000000 ''u1'' ''add car'') = (True, NoMessage)
   \<and> fst (validate_query (snd (validate_query returning_user 1000000 ''u1'' ''add car''))
            2000000 ''u1'' ''add car'') = (True, NoMessage)
   \<and> fst (validate_query
            (snd (validate_query (snd (validate_query returning_user 1000000 ''u1'' ''add car''))
                    2000000 ''u1'' ''add car''))
            3000000 ''u1'' ''add car'') = (True, NoMessage)
   \<and> fst (validate_query
            (snd (validate_query
                    (snd (validate_query (snd (validate_query returning_user 1000000 ''u1'' ''add car''))
                            2000000 ''u1'' ''add car''))
                    3000000 ''u1'' ''add car''))
            4000000 ''u1'' ''add car'') = (False, RepeatedQuestion)
   \<and> check_spam
         (snd (validate_query
                 (snd (validate_query (snd (validate_query returning_user 1000000 ''u1'' ''add car''))
                         2000000 ''u1'' ''add car''))
                 3000000 ''u1'' ''add car''))
         4000000 ''u1'' ''Add a truck'' = (False, NoMessage)"
proof -
  have history: "user_message_history returning_user ''u1'' = [(''fuel report'', 0)]"
    by code_simp
  have "lower ''fuel report'' \<noteq> lower ''add car'' \<and> lower ''fuel report'' \<noteq> lower ''Add a truck''"
    by code_simp
  with history have unseen: "\<forall>(m, t)\<in>set (user_message_history returning_user ''u1'').
      lower m \<noteq> lower ''add car'' \<and> lower m \<noteq> lower ''Add a truck''"
    by simp
  have unblocked: "''u1'' \<notin> blocked_users returning_user" by code_simp
  have no_keyword: "\<not> any_in spam_keywords (lower ''add car'')" by code_simp
  have polite: "check_abusive_language ''add car'' = (False, NoMessage)" by code_simp
  have no_injection: "check_prompt_injection ''add car'' = (False, NoMessage)" by code_simp
  have harmless: "check_malicious_request ''add car'' = (False, NoMessage)" by code_simp
  have w1: "4000000 - 1000000 < five_minutes" and w2: "4000000 - 2000000 < five_minutes"
    and w3: "4000000 - 3000000 < five_minutes"
    by (simp_all add: five_minutes_def)
  have other: "lower ''Add a truck'' \<noteq> lower ''add car''" by code_simp
  have other_clean: "\<not> any_in spam_keywords (lower ''Add a truck'')" by code_simp
  note run = repeated_query_spam [OF unseen unblocked no_keyword polite no_injection harmless
      w1 w2 w3 refl refl refl other other_clean]
  from history run show ?thesis by (intro conjI) simp_all
qed

text \<open>
  Claim C6 as stated fails: the spam check counts the recorded messages, and at the third
  submission only two are recorded, so the third call is accepted.
\<close>

theorem third_repetition_counterexample:
  "fst (validate_query
         (snd (validate_query
                (snd (validate_query initial_safety 0 ''u1'' ''add car''))
                1000000 ''u1'' ''add car''))
         2000000 ''u1'' ''add car'')
   = (True, NoMessage)"
  by code_simp

section \<open>Exact matches\<close>

text \<open>
  Claim C7, as the code has it. Let the query be non-blank and identical to the question of
  a corpus entry \<open>e\<close>, let \<open>top_k\<close> be at least 1, and let the alignment ratio be 1
  on the query against itself and at most 1 against the texts of the corpus. Then \<open>e\<close>
  has the score 1, no entry has a higher score, and the first element of the result at
  threshold 0.3 has the score 1 and is the first corpus entry with that score: \<open>e\<close>
  itself unless an earlier entry ties with it.
\<close>

theorem exact_match_ranks_first:
  assumes nonblank: "strip query \<noteq> []"
    and topk: "1 \<le> top_k"
    and e_in: "e \<in> set faqs"
    and e_q: "question e = query"
    and self1: "ratio (normalize_text query) (normalize_text query) = 1"
    and self2: "ratio (expand_with_synonyms (normalize_text query))
                      (expand_with_synonyms (normalize_text query)) = 1"
    and bound: "\<forall>f\<in>set faqs. \<forall>t\<in>{question f, answer f}.
                  ratio (normalize_text query) (normalize_text t) \<le> 1
                  \<and> ratio (expand_with_synonyms (normalize_text query))
                          (expand_with_synonyms (normalize_text t)) \<le> 1"
  shows "spec_boosted ratio query e = 1
       \<and> (\<forall>f\<in>set faqs. spec_boosted ratio query f \<le> spec_boosted ratio query e)
       \<and> search_faqs ratio query faqs top_k 0.3 \<noteq> []
       \<and> hd (search_faqs ratio query faqs top_k 0.3)
           = (hd (filter (\<lambda>f. spec_boosted ratio query f = 1) faqs), 1)"
proof -
  let ?sb = "spec_boosted ratio query"
  have sim_le: "spec_similarity ratio query t \<le> 1"
    if "f \<in> set faqs" "t \<in> {question f, answer f}" for f t
  proof -
    from bound that have "ratio (normalize_text query) (normalize_text t) \<le> 1"
      and "ratio (expand_with_synonyms (normalize_text query))
                 (expand_with_synonyms (normalize_text t)) \<le> 1"
      by blast+
    then show ?thesis by (simp add: spec_similarity_def)
  qed
  have final_le: "spec_final ratio query f \<le> 1" if "f \<in> set faqs" for f
  proof -
    have "spec_similarity ratio query (question f) \<le> 1"
      and "spec_similarity ratio query (answer f) \<le> 1"
      using sim_le [OF that] by simp_all
    then show ?thesis by (simp add: spec_final_def)
  qed
  have sb_le: "?sb f \<le> 1" if "f \<in> set faqs" for f
    using final_le [OF that] by (simp add: spec_boosted_def)
  have "spec_similarity ratio query (question e) = 1"
    using self1 self2 e_q by (simp add: spec_similarity_def)
  moreover have "spec_similarity ratio query (answer e) \<le> 1"
    using sim_le [OF e_in] by simp
  ultimately have "spec_final ratio query e = 1"
    by (simp add: spec_final_def)
  then have e1: "?sb e = 1" by (simp add: spec_boosted_def)
  let ?kept = "filter (\<lambda>(f, s). 0.3 \<le> s) (map (\<lambda>f. (f, ?sb f)) faqs)"
  let ?ranked = "sort_key (\<lambda>x. - snd x) ?kept"
  from e_in e1 have e_kept: "(e, 1) \<in> set ?kept" by force
  then have e_ranked: "(e, 1) \<in> set ?ranked" by simp
  then have ne: "?ranked \<noteq> []" by (metis empty_iff list.set(1))
  have "sorted (map (\<lambda>x. - snd x) ?ranked)" by (rule sorted_sort_key)
  from sorted_hd_min [OF this e_ranked] have "1 \<le> snd (hd ?ranked)" by simp
  moreover have "snd (hd ?ranked) \<le> 1"
  proof -
    from ne have "hd ?ranked \<in> set ?ranked" by (rule hd_in_set)
    then have "hd ?ranked \<in> set ?kept" by simp
    then obtain f where "f \<in> set faqs" "hd ?ranked = (f, ?sb f)" by auto
    then show ?thesis using sb_le by simp
  qed
  ultimately have top1: "snd (hd ?ranked) = 1" by simp
  have "hd ?ranked = hd (filter (\<lambda>x. snd x = 1) ?ranked)"
    using hd_filter_same [OF ne, of "\<lambda>x. snd x = 1"] top1 by simp
  also have "filter (\<lambda>x. snd x = 1) ?ranked = filter (\<lambda>x. snd x = 1) ?kept"
  proof -
    have "filter (\<lambda>x. - snd x = - 1) ?ranked = filter (\<lambda>x. - snd x = - 1) ?kept"
      by (rule sort_key_stable)
    then show ?thesis by simp
  qed
  also have "\<dots> = map (\<lambda>f. (f, 1)) (filter (\<lambda>f. ?sb f = 1) faqs)"
  proof -
    have "filter (\<lambda>x. snd x = 1) ?kept
          = map (\<lambda>f. (f, 1)) (filter (\<lambda>f. ?sb f = 1 \<and> (0.3 :: real) \<le> 1) faqs)"
      by (rule filter_score_map)
    then show ?thesis by simp
  qed
  finally have hd_eq: "hd ?ranked = hd (map (\<lambda>f. (f, 1)) (filter (\<lambda>f. ?sb f = 1) faqs))" .
  from e_in e1 have "filter (\<lambda>f. ?sb f = 1) faqs \<noteq> []"
    by (auto simp: filter_empty_conv)
  with hd_eq have hd_eq': "hd ?ranked = (hd (filter (\<lambda>f. ?sb f = 1) faqs), 1)"
    by (simp add: hd_map)
  from topk have n: "0 < nat top_k" by simp
  have res: "search_faqs ratio query faqs top_k 0.3 = take (nat top_k) ?ranked"
  proof -
    from topk have "0 \<le> top_k" by simp
    with nonblank show ?thesis
      by (simp only: search_faqs_unfold py_prefix_def if_False if_True)
  qed
  from ne n have "take (nat top_k) ?ranked \<noteq> []" by simp
  moreover from n have "hd (take (nat top_k) ?ranked) = hd ?ranked" by (simp add: hd_take)
  ultimately show ?thesis using e1 sb_le hd_eq' res by simp
qed

theorem exact_match_ranks_first_witness:
  "strip ''fuel report'' \<noteq> []
   \<and> question faq_fuel_report2 = ''fuel report''
   \<and> spec_boosted sequence_matcher_ratio ''fuel report'' faq_fuel_report2 = 1
   \<and> search_faqs sequence_matcher_ratio ''fuel report'' [faq_fuel_costs, faq_fuel_report2] 5 0.3
       = [(faq_fuel_report2, 1), (faq_fuel_costs, 209 / 480)]
   \<and> hd (search_faqs sequence_matcher_ratio ''fuel report'' [faq_fuel_costs, faq_fuel_report2] 5 0.3)
       = (hd (filter (\<lambda>f. spec_boosted sequence_matcher_ratio ''fuel report'' f = 1)
                [faq_fuel_costs, faq_fuel_report2]), 1)"
proof -
  let ?q = "''fuel report''"
  let ?r = sequence_matcher_ratio
  let ?P = "\<lambda>t. ?r (normalize_text ?q) (normalize_text t) \<le> 1
               \<and> ?r (expand_with_synonyms (normalize_text ?q))
                     (expand_with_synonyms (normalize_text t)) \<le> 1"
  have nonblank: "strip ?q \<noteq> []" by code_simp
  have topk: "(1 :: int) \<le> 5" by simp
  have e_in: "faq_fuel_report2 \<in> set [faq_fuel_costs, faq_fuel_report2]" by simp
  have e_q: "question faq_fuel_report2 = ?q" by (simp add: faq_fuel_report2_def)
  have self1: "?r (normalize_text ?q) (normalize_text ?q) = 1" by code_simp
  have self2: "?r (expand_with_synonyms (normalize_text ?q))
                  (expand_with_synonyms (normalize_text ?q)) = 1" by code_simp
  have p1: "?P (question faq_fuel_costs)" by code_simp
  have p2: "?P (answer faq_fuel_costs)" by code_simp
  have p3: "?P (question faq_fuel_report2)" by code_simp
  have p4: "?P (answer faq_fuel_report2)" by code_simp
  from p1 p2 p3 p4 have bound: "\<forall>f\<in>set [faq_fuel_costs, faq_fuel_report2].
      \<forall>t\<in>{question f, answer f}. ?P t"
    by simp
  have run: "search_faqs ?r ?q [faq_fuel_costs, faq_fuel_report2] 5 0.3
             = [(faq_fuel_report2, 1), (faq_fuel_costs, 209 / 480)]"
    by code_simp
  from exact_match_ranks_first [OF nonblank topk e_in e_q self1 self2 bound] nonblank e_q run
  show ?thesis by simp
qed

text \<open>
  Claim C7 as stated fails on a tie: an earlier entry whose question differs from the query
  only in letter case also has the score 1 and stays in front of the exactly matching entry.
\<close>

theorem exact_match_tie_counterexample:
  "question faq_fuel_report2 = ''fuel report''
   \<and> question faq_Fuel_report \<noteq> ''fuel report''
   \<and> search_faqs sequence_matcher_ratio ''fuel report'' [faq_Fuel_report, faq_fuel_report2] 5 0.3
       = [(faq_Fuel_report, 1), (faq_fuel_report2, 1)]"
  by code_simp

section \<open>Category boost\<close>

text \<open>
  Claim C8, as the code has it. Every returned entry comes from the corpus with a score at
  least the threshold, and its score is the combined score multiplied by 1.2 and capped at
  1 when the entry has a category tag that matches, as a substring in either direction, the
  intent returned by \<^verbatim>\<open>detect_intent\<close> (the fine-grained detector); without such a
  match the score is the combined score.
\<close>

theorem category_boost_rule:
  assumes "(f, s) \<in> set (search_faqs ratio query faqs top_k threshold)"
  shows "f \<in> set faqs
       \<and> threshold \<le> s
       \<and> s = (if (case category f of
                    Some cat \<Rightarrow> str_in (lower cat) (lower (fst (detect_intent query)))
                               \<or> str_in (fst (detect_intent query)) (lower cat)
                  | None \<Rightarrow> False)
              then min (base_similarity ratio query f * 1.2) 1
              else base_similarity ratio query f)"
proof -
  from assms have "f \<in> set faqs \<and> threshold \<le> s \<and> s = spec_boosted ratio query f"
    by (rule search_faqs_member)
  then have "f \<in> set faqs" and "threshold \<le> s" and "s = spec_boosted ratio query f"
    by simp_all
  moreover have "spec_boosted ratio query f = faq_similarity ratio query (fst (detect_intent query)) f"
    by (simp add: faq_similarity_spec)
  ultimately show ?thesis
    by (simp add: faq_similarity_def category_matches_def Let_def split: option.splits)
qed

theorem category_boost_rule_witness:
  "(faq_export, 1) \<in> set (search_faqs sequence_matcher_ratio ''export report'' [faq_export] 5 0.3)
   \<and> detect_intent ''export report'' = (''export'', 0.9)
   \<and> category faq_export = Some ''Export''
   \<and> base_similarity sequence_matcher_ratio ''export report'' faq_export = 2971 / 3080
   \<and> (1 :: real) = min (2971 / 3080 * 1.2) 1
   \<and> (1 :: real) = (if (case category faq_export of
                          Some cat \<Rightarrow> str_in (lower cat) (lower (fst (detect_intent ''export report'')))
                                     \<or> str_in (fst (detect_intent ''export report'')) (lower cat)
                        | None \<Rightarrow> False)
                     then min (base_similarity sequence_matcher_ratio ''export report'' faq_export * 1.2) 1
                     else base_similarity sequence_matcher_ratio ''export report'' faq_export)"
proof -
  have mem: "(faq_export, 1) \<in> set (search_faqs sequence_matcher_ratio ''export report'' [faq_export] 5 0.3)"
    by code_simp
  have intent: "detect_intent ''export report'' = (''export'', 0.9)" by code_simp
  have cat: "category faq_export = Some ''Export''" by (simp add: faq_export_def)
  have base: "base_similarity sequence_matcher_ratio ''export report'' faq_export = 2971 / 3080"
    by code_simp
  have cap: "(1 :: real) = min (2971 / 3080 * 1.2) 1" by simp
  from category_boost_rule [OF mem] have
    "(1 :: real) = (if (case category faq_export of
                          Some cat \<Rightarrow> str_in (lower cat) (lower (fst (detect_intent ''export report'')))
                                     \<or> str_in (fst (detect_intent ''export report'')) (lower cat)
                        | None \<Rightarrow> False)
                     then min (base_similarity sequence_matcher_ratio ''export report'' faq_export * 1.2) 1
                     else base_similarity sequence_matcher_ratio ''export report'' faq_export)"
    by (rule conjunct2 [THEN conjunct2])
  with mem intent cat base cap show ?thesis by (intro conjI)
qed

text \<open>
  Claim C8 as stated fails: the boost is not decided on the coarse label. The query
  \<open>fuel\<close> has the coarse label \<open>fuel_tracking\<close>, which the category \<open>Fuel\<close>
  matches, and the entry keeps its unboosted score 4/7.
\<close>

theorem category_boost_counterexample:
  "classify_query_intent ''fuel'' = ''fuel_tracking''
   \<and> category faq_fuel_costs = Some ''Fuel''
   \<and> boost_applies ''fuel_tracking'' faq_fuel_costs
   \<and> base_similarity sequence_matcher_ratio ''fuel'' faq_fuel_costs = 4 / 7
   \<and> search_faqs sequence_matcher_ratio ''fuel'' [faq_fuel_costs] 5 0.3 = [(faq_fuel_costs, 4 / 7)]"
  by code_simp

section \<open>Properties of the analytics tagger\<close>

lemma py_round2_minus_one: "py_round2 (- 1) = - 1"
  by (simp add: py_round2_def)

lemma negative_score_is_minus_one:
  "min (- 1) (- (real n / real (max 1 (p + n)))) = (- 1 :: real)"
proof -
  have "real n \<le> real (max 1 (p + n))" by simp
  moreover have "0 < real (max 1 (p + n))" by simp
  ultimately have "real n / real (max 1 (p + n)) \<le> 1"
    by (simp only: divide_le_eq_1_pos)
  then show ?thesis by simp
qed

lemma detect_sentiment_fields:
  "positive_indicators (detect_sentiment t) = count_in positive_words (lower t)"
  "negative_indicators (detect_sentiment t) = count_in negative_words (lower t)"
  "frustrated_indicators (detect_sentiment t) = count_in frustrated_words (lower t)"
  "sentiment (detect_sentiment t) =
     fst (sentiment_of_counts (count_in positive_words (lower t))
            (count_in negative_words (lower t)) (count_in frustrated_words (lower t)))"
  "sentiment_score (detect_sentiment t) =
     py_round2 (snd (sentiment_of_counts (count_in positive_words (lower t))
            (count_in negative_words (lower t)) (count_in frustrated_words (lower t))))"
  by (simp_all add: detect_sentiment_def Let_def split: prod.splits)

text \<open>
  Claim C9, as the code has it. A text with at least one frustrated indicator is labelled
  frustrated whatever the positive and negative counts are. A text with no frustrated
  indicator and equal, non-zero positive and negative counts is labelled positive: the
  negative branch needs strictly more negative than positive indicators, so on a tie the
  positive branch is taken.
\<close>

theorem detect_sentiment_precedence:
  assumes "0 < frustrated_indicators (detect_sentiment t1)"
    and "frustrated_indicators (detect_sentiment t2) = 0"
    and "positive_indicators (detect_sentiment t2) = negative_indicators (detect_sentiment t2)"
    and "positive_indicators (detect_sentiment t2) \<noteq> 0"
  shows "sentiment (detect_sentiment t1) = ''frustrated''
       \<and> sentiment (detect_sentiment t2) = ''positive''"
  using assms by (simp add: detect_sentiment_fields sentiment_of_counts_def Let_def)

theorem detect_sentiment_precedence_witness:
  "0 < frustrated_indicators (detect_sentiment ''Angry: good but bad'')
   \<and> frustrated_indicators (detect_sentiment ''good bad'') = 0
   \<and> positive_indicators (detect_sentiment ''good bad'') = 1
   \<and> negative_indicators (detect_sentiment ''good bad'') = 1
   \<and> sentiment (detect_sentiment ''Angry: good but bad'') = ''frustrated''
   \<and> sentiment (detect_sentiment ''good bad'') = ''positive''"
proof -
  have f1: "0 < frustrated_indicators (detect_sentiment ''Angry: good but bad'')"
    by code_simp
  have f2: "frustrated_indicators (detect_sentiment ''good bad'') = 0"
    by code_simp
  have p2: "positive_indicators (detect_sentiment ''good bad'') = 1"
    by code_simp
  have n2: "negative_indicators (detect_sentiment ''good bad'') = 1"
    by code_simp
  have "sentiment (detect_sentiment ''Angry: good but bad'') = ''frustrated''
       \<and> sentiment (detect_sentiment ''good bad'') = ''positive''"
    using detect_sentiment_precedence [OF f1 f2] p2 n2 by simp
  with f1 f2 p2 n2 show ?thesis by simp
qed

text \<open>
  Claim C9 as stated fails on a tie: for the text \<open>good bad\<close> there is no frustrated
  indicator, one positive and one negative indicator, and the label is not negative.
\<close>

theorem detect_sentiment_tie_counterexample:
  "frustrated_indicators (detect_sentiment ''good bad'') = 0
   \<and> positive_indicators (detect_sentiment ''good bad'') = negative_indicators (detect_sentiment ''good bad'')
   \<and> positive_indicators (detect_sentiment ''good bad'') \<noteq> 0
   \<and> sentiment (detect_sentiment ''good bad'') \<noteq> ''negative''"
  by code_simp

text \<open>
  Claim C10. Whenever the label is negative, there is no frustrated indicator, the
  negative count strictly exceeds the positive count, and the returned score is exactly
  \<open>-1\<close>: the second argument of \<^verbatim>\<open>min\<close> is never below \<open>-1\<close>.
\<close>

theorem detect_sentiment_negative_score:
  assumes "sentiment (detect_sentiment t) = ''negative''"
  shows "sentiment_score (detect_sentiment t) = - 1
       \<and> frustrated_indicators (detect_sentiment t) = 0
       \<and> positive_indicators (detect_sentiment t) < negative_indicators (detect_sentiment t)"
proof -
  let ?p = "count_in positive_words (lower t)"
  let ?n = "count_in negative_words (lower t)"
  let ?f = "count_in frustrated_words (lower t)"
  from assms have lab: "fst (sentiment_of_counts ?p ?n ?f) = ''negative''"
    by (simp add: detect_sentiment_fields)
  then have f0: "?f = 0" and pn: "?p < ?n"
    by (auto simp: sentiment_of_counts_def Let_def split: if_splits)
  then have "snd (sentiment_of_counts ?p ?n ?f) = - 1"
    by (simp add: sentiment_of_counts_def Let_def negative_score_is_minus_one)
  then have "sentiment_score (detect_sentiment t) = - 1"
    by (simp add: detect_sentiment_fields py_round2_minus_one)
  with f0 pn show ?thesis
    by (simp add: detect_sentiment_fields)
qed

theorem detect_sentiment_negative_score_witness:
  "sentiment (detect_sentiment ''bad and broken, but thanks'') = ''negative''
   \<and> sentiment_score (detect_sentiment ''bad and broken, but thanks'') = - 1
   \<and> positive_indicators (detect_sentiment ''bad and broken, but thanks'') = 1
   \<and> negative_indicators (detect_sentiment ''bad and broken, but thanks'') = 2"
proof -
  have l: "sentiment (detect_sentiment ''bad and broken, but thanks'') = ''negative''"
    by code_simp
  have p: "positive_indicators (detect_sentiment ''bad and broken, but thanks'') = 1"
    by code_simp
  have n: "negative_indicators (detect_sentiment ''bad and broken, but thanks'') = 2"
    by code_simp
  from detect_sentiment_negative_score [OF l] l p n show ?thesis by simp
qed

end
